theory Spec2Isabelle
  imports Complex_Main "HOL-Library.Sublist"
begin

section \<open>Python values used by both bots\<close>

text \<open>
  A Python \<open>str\<close> is modelled by its UTF-8 encoding, a \<open>string\<close> of bytes; the
  operations that count or classify characters work on the characters of the encoding.
  The non-ASCII markers of the report templates are written as the bytes they have in
  the source files.  A Python \<open>int\<close> is an \<open>int\<close>.  A Python \<open>float\<close> is modelled
  by the rational number it denotes, or by one of the three special values; there is no
  negative zero.
\<close>

datatype pyfloat = Finite rat | PosInf | NegInf | NaN

text \<open>Rounding of a non-negative number to the nearest natural number, ties to even.\<close>

definition round_half_even :: "rat \<Rightarrow> nat" where
  "round_half_even q =
     (let f = nat \<lfloor>q\<rfloor>; r = q - of_int \<lfloor>q\<rfloor>
      in if r < 1 / 2 then f else if 1 / 2 < r then f + 1 else if even f then f else f + 1)"

text \<open>
  Binary64 arithmetic.  \<open>ilog2 n\<close> is the position of the leading binary digit of
  \<open>n\<close>, and \<open>float_exponent x\<close> the exponent \<open>e\<close> with \<open>2\<^sup>e \<le> |x| < 2\<^sup>e\<^sup>+\<^sup>1\<close> of a
  number other than 0.  \<open>round_binary64 x\<close> is the binary64 value nearest to \<open>x\<close>, ties
  to even: the multiple of the spacing \<open>2\<^sup>e\<^sup>-\<^sup>5\<^sup>2\<close> (of \<open>2\<^sup>-\<^sup>1\<^sup>0\<^sup>7\<^sup>4\<close> for the subnormal
  numbers) nearest to it.  The numbers the scorer rounds are far below the overflow
  threshold \<open>2\<^sup>1\<^sup>0\<^sup>2\<^sup>4\<close>.
\<close>

fun ilog2 :: "nat \<Rightarrow> nat" where
  "ilog2 n = (if n < 2 then 0 else Suc (ilog2 (n div 2)))"

declare ilog2.simps [simp del]

definition float_exponent :: "rat \<Rightarrow> int" where
  "float_exponent x =
     (if 1 \<le> \<bar>x\<bar> then int (ilog2 (nat \<lfloor>\<bar>x\<bar>\<rfloor>))
      else - int (Suc (ilog2 (nat \<lceil>1 / \<bar>x\<bar>\<rceil> - 1))))"

definition round_binary64 :: "rat \<Rightarrow> rat" where
  "round_binary64 x =
     (if x = 0 then 0
      else let q = 2 powi (max (float_exponent x - 52) (- 1074))
           in sgn x * of_nat (round_half_even (\<bar>x\<bar> / q)) * q)"

text \<open>An instance of \<open>Exception\<close>, carrying the text \<open>str(e)\<close>.\<close>

datatype exn = Exn string

fun str_exn :: "exn \<Rightarrow> string" where
  "str_exn (Exn msg) = msg"

text \<open>\<open>str(n)\<close> for an \<open>int\<close>: decimal digits, with a minus sign for a negative number.\<close>

definition digit_char :: "nat \<Rightarrow> char" where
  "digit_char d = ''0123456789'' ! (d mod 10)"

fun str_nat :: "nat \<Rightarrow> string" where
  "str_nat n = (if n < 10 then [digit_char n] else str_nat (n div 10) @ [digit_char (n mod 10)])"

declare str_nat.simps [simp del]

definition str_int :: "int \<Rightarrow> string" where
  "str_int i = (if i < 0 then ''-'' @ str_nat (nat (- i)) else str_nat (nat i))"

text \<open>
  The characters of a \<open>str\<close>: in UTF-8 a character is a byte that is not a
  continuation byte (\<open>10xxxxxx\<close>), followed by its continuation bytes.  The second
  argument is the character being read, reversed.
\<close>

definition is_continuation :: "char \<Rightarrow> bool" where
  "is_continuation b = (digit7 b \<and> \<not> digit6 b)"

fun utf8_chars_acc :: "string \<Rightarrow> string \<Rightarrow> string list" where
  "utf8_chars_acc [] cur = (if cur = [] then [] else [rev cur])"
| "utf8_chars_acc (b # bs) cur =
     (if is_continuation b \<and> cur \<noteq> [] then utf8_chars_acc bs (b # cur)
      else (if cur = [] then [] else [rev cur]) @ utf8_chars_acc bs [b])"

definition utf8_chars :: "string \<Rightarrow> string list" where
  "utf8_chars s = utf8_chars_acc s []"

text \<open>\<open>s[:n]\<close>: the first \<open>n\<close> characters.\<close>

definition py_take :: "nat \<Rightarrow> string \<Rightarrow> string" where
  "py_take n s = concat (take n (utf8_chars s))"

text \<open>
  \<open>str.isspace\<close> of a character: \<open>U+0009..U+000D\<close>, \<open>U+001C..U+001F\<close>, \<open>U+0020\<close>,
  \<open>U+0085\<close>, \<open>U+00A0\<close>, \<open>U+1680\<close>, \<open>U+2000..U+200A\<close>, \<open>U+2028\<close>, \<open>U+2029\<close>,
  \<open>U+202F\<close>, \<open>U+205F\<close> and \<open>U+3000\<close>, in their encodings.
\<close>

definition is_space :: "string \<Rightarrow> bool" where
  "is_space c =
     (c \<in> set [[CHR 0x09], [CHR 0x0A], [CHR 0x0B], [CHR 0x0C], [CHR 0x0D],
                [CHR 0x1C], [CHR 0x1D], [CHR 0x1E], [CHR 0x1F], [CHR 0x20],
                [CHR 0xC2, CHR 0x85], [CHR 0xC2, CHR 0xA0], [CHR 0xE1, CHR 0x9A, CHR 0x80],
                [CHR 0xE2, CHR 0x80, CHR 0x80], [CHR 0xE2, CHR 0x80, CHR 0x81],
                [CHR 0xE2, CHR 0x80, CHR 0x82], [CHR 0xE2, CHR 0x80, CHR 0x83],
                [CHR 0xE2, CHR 0x80, CHR 0x84], [CHR 0xE2, CHR 0x80, CHR 0x85],
                [CHR 0xE2, CHR 0x80, CHR 0x86], [CHR 0xE2, CHR 0x80, CHR 0x87],
                [CHR 0xE2, CHR 0x80, CHR 0x88], [CHR 0xE2, CHR 0x80, CHR 0x89],
                [CHR 0xE2, CHR 0x80, CHR 0x8A], [CHR 0xE2, CHR 0x80, CHR 0xA8],
                [CHR 0xE2, CHR 0x80, CHR 0xA9], [CHR 0xE2, CHR 0x80, CHR 0xAF],
                [CHR 0xE2, CHR 0x81, CHR 0x9F], [CHR 0xE3, CHR 0x80, CHR 0x80]])"

text \<open>\<open>s.strip()\<close>: whitespace characters removed at both ends.\<close>

definition py_strip :: "string \<Rightarrow> string" where
  "py_strip s = concat (rev (dropWhile is_space (rev (dropWhile is_space (utf8_chars s)))))"

text \<open>
  \<open>s.split()\<close>: the maximal runs of characters that are not whitespace, in order.
  The second argument is the run being read, reversed.
\<close>

fun split_acc :: "string list \<Rightarrow> string list \<Rightarrow> string list" where
  "split_acc [] cur = (if cur = [] then [] else [concat (rev cur)])"
| "split_acc (c # cs) cur =
     (if is_space c
      then (if cur = [] then split_acc cs [] else concat (rev cur) # split_acc cs [])
      else split_acc cs (c # cur))"

definition py_split :: "string \<Rightarrow> string list" where
  "py_split s = split_acc (utf8_chars s) []"

section \<open>Dates: \<open>datetime\<close> in UTC and the age of an issue\<close>

text \<open>
  A timezone-aware \<open>datetime\<close> in UTC, with the fields Python stores.  The difference
  of two of them follows CPython's \<open>datetime.__sub__\<close>: proleptic Gregorian ordinals
  for the dates, seconds within the day, and the normalisation of \<open>timedelta\<close>, whose
  \<open>days\<close> field is the floor of the difference in days.
\<close>

record datetime =
  year :: int
  month :: int
  day :: int
  hour :: int
  minute :: int
  second :: int
  microsecond :: int

definition is_leap :: "int \<Rightarrow> bool" where
  "is_leap y = (y mod 4 = 0 \<and> (y mod 100 \<noteq> 0 \<or> y mod 400 = 0))"

definition days_before_year :: "int \<Rightarrow> int" where
  "days_before_year y = (let p = y - 1 in p * 365 + p div 4 - p div 100 + p div 400)"

text \<open>The table \<open>_DAYS_BEFORE_MONTH\<close>; a \<open>datetime\<close> has its month in 1..12.\<close>

definition days_before_month_table :: "int list" where
  "days_before_month_table = [0, 0, 31, 59, 90, 120, 151, 181, 212, 243, 273, 304, 334]"

definition days_before_month :: "int \<Rightarrow> int \<Rightarrow> int" where
  "days_before_month y m =
     (if 1 \<le> m \<and> m \<le> 12 then days_before_month_table ! nat m else 0)
     + (if m > 2 \<and> is_leap y then 1 else 0)"

definition toordinal :: "datetime \<Rightarrow> int" where
  "toordinal d = days_before_year (year d) + days_before_month (year d) (month d) + day d"

definition microseconds_per_day :: int where
  "microseconds_per_day = 86400000000"

text \<open>The \<open>days\<close> field of \<open>timedelta(days, seconds, microseconds)\<close>.\<close>

definition timedelta_days :: "int \<Rightarrow> int \<Rightarrow> int \<Rightarrow> int" where
  "timedelta_days d s us = (d * microseconds_per_day + s * 1000000 + us) div microseconds_per_day"

definition seconds_of_day :: "datetime \<Rightarrow> int" where
  "seconds_of_day d = second d + minute d * 60 + hour d * 3600"

text \<open>
  \<open>calculate_issue_age(created_at)\<close>.  The function reads the clock; the reading
  \<open>now\<close> is its first argument here.
\<close>

definition calculate_issue_age :: "datetime \<Rightarrow> datetime \<Rightarrow> int" where
  "calculate_issue_age now created =
     timedelta_days (toordinal now - toordinal created)
                    (seconds_of_day now - seconds_of_day created)
                    (microsecond now - microsecond created)"

text \<open>The instant of a \<open>datetime\<close>, in microseconds since the start of ordinal day 0.\<close>

definition instant :: "datetime \<Rightarrow> int" where
  "instant d = toordinal d * microseconds_per_day + seconds_of_day d * 1000000 + microsecond d"

section \<open>Issue Summary Bot: the priority score\<close>

text \<open>
  The attributes of a fetched issue that the bot reads; \<open>comments\<close> is the number of
  comments of the issue, \<open>labels\<close> the names of its labels, \<open>body\<close> is \<open>None\<close> for
  an issue without description.
\<close>

record issue =
  number :: int
  title :: string
  body :: "string option"
  labels :: "string list"
  comments :: nat
  created_at :: datetime
  html_url :: string

text \<open>
  The analyzer: what \<open>LLMChain(llm, prompt).run(title=..., body=...)\<close> returns, or the
  exception it raises, for the contextual-priority prompt.
\<close>

type_synonym llm = "string \<Rightarrow> string \<Rightarrow> exn + string"

text \<open>
  The builtin \<open>float(s)\<close>: the parsed value, or the \<open>ValueError\<close> it raises.  It is
  a parameter of the model.
\<close>

type_synonym float_parser = "string \<Rightarrow> exn + pyfloat"

text \<open>
  \<open>max(0.0, min(score, 50.0))\<close> with Python's \<open>min\<close> and \<open>max\<close>, which keep their
  first argument unless the second compares strictly smaller (resp. greater); every
  comparison with \<open>nan\<close> is false.
\<close>

fun pyfloat_less :: "pyfloat \<Rightarrow> pyfloat \<Rightarrow> bool" where
  "pyfloat_less NaN _ = False"
| "pyfloat_less _ NaN = False"
| "pyfloat_less PosInf _ = False"
| "pyfloat_less _ PosInf = True"
| "pyfloat_less NegInf NegInf = False"
| "pyfloat_less NegInf (Finite _) = True"
| "pyfloat_less (Finite _) NegInf = False"
| "pyfloat_less (Finite x) (Finite y) = (x < y)"

definition py_min :: "pyfloat \<Rightarrow> pyfloat \<Rightarrow> pyfloat" where
  "py_min a b = (if pyfloat_less b a then b else a)"

definition py_max :: "pyfloat \<Rightarrow> pyfloat \<Rightarrow> pyfloat" where
  "py_max a b = (if pyfloat_less a b then b else a)"

definition clamp_score :: "pyfloat \<Rightarrow> pyfloat" where
  "clamp_score score = py_max (Finite 0) (py_min score (Finite 50))"

text \<open>\<open>issue.body[:500] if issue.body else "No description provided"\<close>.\<close>

definition body_preview :: "issue \<Rightarrow> string" where
  "body_preview i =
     (case body i of None \<Rightarrow> ''No description provided''
      | Some b \<Rightarrow> if b = [] then ''No description provided'' else py_take 500 b)"

text \<open>The line the \<open>except\<close> branch prints to stderr.\<close>

definition context_error_line :: "issue \<Rightarrow> exn \<Rightarrow> string" where
  "context_error_line i e =
     ''Error analyzing contextual priority for issue #'' @ str_int (number i) @ '': '' @ str_exn e"

text \<open>
  \<open>analyze_contextual_priority(llm, issue)\<close>.  The result is the returned score and
  the lines printed to stderr.  The three ways into the \<open>except\<close> branch are the
  exception of the call, the \<open>IndexError\<close> of \<open>split()[0]\<close> on a blank response, and
  the \<open>ValueError\<close> of \<open>float\<close>.
\<close>

definition analyze_contextual_priority ::
  "float_parser \<Rightarrow> llm \<Rightarrow> issue \<Rightarrow> pyfloat \<times> string list" where
  "analyze_contextual_priority float_of l i =
     (case l (title i) (body_preview i) of
        Inl e \<Rightarrow> (Finite 0, [context_error_line i e])
      | Inr result \<Rightarrow>
          (case py_split (py_strip result) of
             [] \<Rightarrow> (Finite 0, [context_error_line i (Exn ''list index out of range'')])
           | score_str # _ \<Rightarrow>
               (case float_of score_str of
                  Inl e \<Rightarrow> (Finite 0, [context_error_line i e])
                | Inr score \<Rightarrow> (clamp_score score, []))))"

record priority_breakdown =
  age :: pyfloat
  engagement :: pyfloat
  context' :: pyfloat

record priority_result =
  total :: pyfloat
  breakdown :: priority_breakdown

text \<open>
  Addition of floats: the exact sum of two finite values, rounded to binary64; adding
  zero returns the other operand.
\<close>

fun pyfloat_add :: "pyfloat \<Rightarrow> pyfloat \<Rightarrow> pyfloat" where
  "pyfloat_add (Finite x) (Finite y) =
     (if y = 0 then Finite x else if x = 0 then Finite y else Finite (round_binary64 (x + y)))"
| "pyfloat_add NaN _ = NaN"
| "pyfloat_add _ NaN = NaN"
| "pyfloat_add PosInf NegInf = NaN"
| "pyfloat_add NegInf PosInf = NaN"
| "pyfloat_add PosInf _ = PosInf"
| "pyfloat_add _ PosInf = PosInf"
| "pyfloat_add NegInf _ = NegInf"
| "pyfloat_add _ NegInf = NegInf"

text \<open>
  Addition of two floats whose exact sum is a binary64 value, so that the addition does
  not round.  The age score and the engagement score are added this way: both are
  multiples of \<open>1/2\<close>, and for the dates a \<open>datetime\<close> holds (the years 1 to 9999) their
  sum is below \<open>2\<^sup>2\<^sup>2\<close> in magnitude; \<open>pyfloat_add_exact_agrees\<close> shows that
  \<open>pyfloat_add\<close> gives the same sum for every number of days of a \<open>timedelta\<close>.
\<close>

fun pyfloat_add_exact :: "pyfloat \<Rightarrow> pyfloat \<Rightarrow> pyfloat" where
  "pyfloat_add_exact (Finite x) (Finite y) = Finite (x + y)"
| "pyfloat_add_exact NaN _ = NaN"
| "pyfloat_add_exact _ NaN = NaN"
| "pyfloat_add_exact PosInf NegInf = NaN"
| "pyfloat_add_exact NegInf PosInf = NaN"
| "pyfloat_add_exact PosInf _ = PosInf"
| "pyfloat_add_exact _ PosInf = PosInf"
| "pyfloat_add_exact NegInf _ = NegInf"
| "pyfloat_add_exact _ NegInf = NegInf"

text \<open>
  \<open>get_priority_score(issue, llm=None)\<close>, with the clock reading and \<open>float\<close> as
  arguments; the result is the returned dictionary and the lines printed to stderr.
\<close>

definition get_priority_score ::
  "datetime \<Rightarrow> float_parser \<Rightarrow> issue \<Rightarrow> llm option \<Rightarrow> priority_result \<times> string list" where
  "get_priority_score now float_of i l =
     (let age_days = calculate_issue_age now (created_at i);
          age_score = py_min (Finite (of_int age_days / 2)) (Finite 50);
          engagement_score = py_min (Finite (of_nat (comments i * 3))) (Finite 50);
          (contextual_score, err) =
             (case l of None \<Rightarrow> (Finite 0, [])
              | Some f \<Rightarrow> analyze_contextual_priority float_of f i);
          total_score =
            pyfloat_add (pyfloat_add_exact age_score engagement_score) contextual_score
      in (\<lparr>total = total_score,
           breakdown = \<lparr>age = age_score, engagement = engagement_score,
                        context' = contextual_score\<rparr>\<rparr>, err))"

section \<open>Issue Summary Bot: the report\<close>

text \<open>
  The format specification \<open>:.1f\<close>: the value rounded to one decimal, ties to even,
  with a minus sign for a negative value.
\<close>

fun fmt_1f :: "pyfloat \<Rightarrow> string" where
  "fmt_1f (Finite x) =
     (let t = round_half_even (\<bar>x\<bar> * 10)
      in (if x < 0 then ''-'' else []) @ str_nat (t div 10) @ ''.'' @ [digit_char (t mod 10)])"
| "fmt_1f PosInf = ''inf''"
| "fmt_1f NegInf = ''-inf''"
| "fmt_1f NaN = ''nan''"

text \<open>
  \<open>strftime('%Y-%m-%d %H:%M:%S UTC')\<close>: the fields in decimal, padded with zeros to
  four digits for the year and two for the others.
\<close>

definition zero_pad :: "nat \<Rightarrow> int \<Rightarrow> string" where
  "zero_pad w n = (let s = str_int n in replicate (w - length s) CHR ''0'' @ s)"

definition strftime_utc :: "datetime \<Rightarrow> string" where
  "strftime_utc d =
     zero_pad 4 (year d) @ ''-'' @ zero_pad 2 (month d) @ ''-'' @ zero_pad 2 (day d) @ '' ''
     @ zero_pad 2 (hour d) @ '':'' @ zero_pad 2 (minute d) @ '':'' @ zero_pad 2 (second d)
     @ '' UTC''"

text \<open>
  One entry of \<open>prioritized_issues\<close>: a dictionary with the keys below.  The keys
  \<open>reading_materials\<close> and \<open>priority_breakdown\<close> are read with \<open>get\<close> and may be
  absent (\<open>None\<close>); the breakdown is itself a dictionary, read with \<open>get\<close>.
\<close>

record issue_entry =
  d_number :: int
  d_title :: string
  d_url :: string
  d_created_at :: datetime
  d_labels :: string
  d_comments :: nat
  d_priority_score :: pyfloat
  d_priority_breakdown :: "(string \<times> pyfloat) list option"
  d_summary :: string
  d_reading_materials :: "string option"

text \<open>The markers of the headings, as the bytes of the source file.\<close>

definition mark_recommendation :: string where
  "mark_recommendation = [CHR 0xC3, CHR 0xB0, CHR 0xC5, CHR 0xB8, CHR 0xC5, CHR 0xBD, CHR 0xC2, CHR 0xAF]"

definition mark_issues :: string where
  "mark_issues = [CHR 0xC3, CHR 0xB0, CHR 0xC5, CHR 0xB8, CHR 0xE2, CHR 0x80, CHR 0x9C,
                  CHR 0xE2, CHR 0x80, CHR 0xB9]"

definition mark_reading :: string where
  "mark_reading = [CHR 0xC3, CHR 0xB0, CHR 0xC5, CHR 0xB8, CHR 0xE2, CHR 0x80, CHR 0x9C,
                   CHR 0xC5, CHR 0xA1]"

definition issue_report_header :: "datetime \<Rightarrow> nat \<Rightarrow> string \<Rightarrow> string \<Rightarrow> string" where
  "issue_report_header now n recommendation repo_name =
     ''# Issue Summary Report\<newline>\<newline>**Repository:** '' @ repo_name @ ''  \<newline>**Generated:** ''
     @ strftime_utc now @ ''  \<newline>**Total Open Issues:** '' @ str_nat n
     @ ''\<newline>\<newline>## '' @ mark_recommendation @ '' Priority Recommendation\<newline>\<newline>''
     @ recommendation
     @ ''\<newline>\<newline>## '' @ mark_issues @ '' Prioritized Issues\<newline>\<newline>''"

definition breakdown_get :: "(string \<times> pyfloat) list \<Rightarrow> string \<Rightarrow> pyfloat" where
  "breakdown_get b k = (case map_of b k of None \<Rightarrow> Finite 0 | Some v \<Rightarrow> v)"

text \<open>\<open>issue.get('priority_breakdown', {})\<close>.\<close>

definition entry_breakdown :: "issue_entry \<Rightarrow> (string \<times> pyfloat) list" where
  "entry_breakdown i = (case d_priority_breakdown i of None \<Rightarrow> [] | Some b \<Rightarrow> b)"

definition priority_display :: "issue_entry \<Rightarrow> string" where
  "priority_display i =
     (let breakdown = entry_breakdown i;
          age_val = breakdown_get breakdown ''age'';
          engagement_val = breakdown_get breakdown ''engagement'';
          context_val = breakdown_get breakdown ''context''
      in fmt_1f (d_priority_score i)
         @ (if breakdown \<noteq> []
            then '' ('' @ fmt_1f age_val @ '' Age, '' @ fmt_1f engagement_val @ '' Engagement''
                 @ (if pyfloat_less (Finite 0) context_val
                    then '', '' @ fmt_1f context_val @ '' Context analysis'' else [])
                 @ '')''
            else []))"

definition reading_section :: "issue_entry \<Rightarrow> string" where
  "reading_section i =
     (let reading_materials = (case d_reading_materials i of None \<Rightarrow> [] | Some r \<Rightarrow> r)
      in if reading_materials \<noteq> []
         then ''\<newline>\<newline>**'' @ mark_reading @ '' Recommended Reading:**\<newline>'' @ reading_materials
              @ ''\<newline>''
         else [])"

text \<open>
  The text one iteration of the loop appends; \<open>now\<close> is the clock reading of that
  iteration's call of \<open>calculate_issue_age\<close>.
\<close>

definition issue_section :: "datetime \<Rightarrow> nat \<Rightarrow> issue_entry \<Rightarrow> string" where
  "issue_section now idx i =
     (let age_days = calculate_issue_age now (d_created_at i);
          labels_str = (if d_labels i \<noteq> [] then d_labels i else ''none'')
      in ''### '' @ str_nat idx @ ''. ['' @ d_title i @ '']('' @ d_url i @ '')\<newline>\<newline>**Issue #** ''
         @ str_int (d_number i) @ ''  \<newline>**Priority Score:** '' @ priority_display i
         @ ''  \<newline>**Labels:** '' @ labels_str @ ''  \<newline>**Age:** '' @ str_int age_days
         @ '' days  \<newline>**Comments:** '' @ str_nat (d_comments i) @ ''  \<newline>\<newline>**Summary:** ''
         @ d_summary i @ reading_section i @ ''\<newline>\<newline>---\<newline>\<newline>'')"

text \<open>
  \<open>format_issue_summary(prioritized_issues, recommendation, repo_name)\<close>.  The function
  reads the clock once for the header and once in every iteration; \<open>clock 0\<close> is the
  reading of the header and \<open>clock idx\<close> that of the iteration with index \<open>idx\<close>.
\<close>

definition format_issue_summary ::
  "(nat \<Rightarrow> datetime) \<Rightarrow> issue_entry list \<Rightarrow> string \<Rightarrow> string \<Rightarrow> string" where
  "format_issue_summary clock prioritized_issues recommendation repo_name =
     foldl (\<lambda>report (idx, i). report @ issue_section (clock idx) idx i)
       (issue_report_header (clock 0) (length prioritized_issues) recommendation repo_name)
       (enumerate 1 prioritized_issues)"

section \<open>Kanban Summary Bot: the items of a project\<close>

text \<open>
  The GraphQL response, with the shapes the query of \<open>get_project_items\<close> asks for.
  A JSON string that may be \<open>null\<close> is a \<open>jstr\<close>; a dictionary key that may be absent
  is an \<open>option\<close>.
\<close>

datatype jstr = Null | Str string

text \<open>The \<open>field\<close> of a field value: a dictionary whose \<open>name\<close> is read with \<open>get\<close>.\<close>

record field_obj =
  fo_name :: "string option"

text \<open>
  A node of \<open>fieldValues\<close> that is not empty: \<open>fv_field\<close> is \<open>None\<close> when the node has
  no key \<open>field\<close>, \<open>fv_name\<close> is \<open>None\<close> when it has no key \<open>name\<close>.
\<close>

record field_value =
  fv_field :: "field_obj option"
  fv_name :: "jstr option"

text \<open>
  The \<open>content\<close> of an item that is not empty; \<open>c_number\<close> is \<open>None\<close> when the content
  has no key \<open>number\<close>, \<open>c_labels\<close> holds the names of \<open>labels.nodes\<close> (empty when
  either key is absent).
\<close>

record content_obj =
  c_number :: "int option"
  c_title :: string
  c_url :: string
  c_state :: string
  c_labels :: "string list"
  c_createdAt :: string
  c_updatedAt :: string

text \<open>
  An item of the project: \<open>content\<close> is \<open>None\<close> when the key is absent, \<open>null\<close> or the
  empty dictionary; \<open>fieldValues\<close> holds \<open>fieldValues.nodes\<close> (empty when either key is
  absent), a node being \<open>None\<close> when it is \<open>null\<close> or the empty dictionary.
\<close>

record raw_item =
  content :: "content_obj option"
  fieldValues :: "field_value option list"

text \<open>The record the bucketer stores for an issue.\<close>

record issue_data =
  k_number :: int
  k_title :: string
  k_url :: string
  k_state :: string
  k_labels :: "string list"
  k_created_at :: string
  k_updated_at :: string

text \<open>
  The dictionary \<open>columns\<close>, in insertion order: an association list with distinct
  keys.
\<close>

type_synonym columns = "(string \<times> issue_data list) list"

definition initial_columns :: columns where
  "initial_columns =
     [(''Backlog'', []), (''Ready'', []), (''In progress'', []), (''In review'', []), (''Done'', [])]"

text \<open>
  \<open>s.lower()\<close> on the ASCII letters; the other characters are kept, so that the
  comparison with \<open>'status'\<close> and \<open>'state'\<close> is the program's.
\<close>

definition lower_char :: "char \<Rightarrow> char" where
  "lower_char c =
     (case map_of (zip ''ABCDEFGHIJKLMNOPQRSTUVWXYZ'' ''abcdefghijklmnopqrstuvwxyz'') c of
        None \<Rightarrow> c | Some l \<Rightarrow> l)"

definition py_lower :: "string \<Rightarrow> string" where
  "py_lower s = map lower_char s"

text \<open>
  The scan of the field values: \<open>status\<close> starts as \<open>'Backlog'\<close> and the loop stops at
  the first node with a \<open>field\<close> whose name, in lower case, is \<open>status\<close> or \<open>state\<close>.
\<close>

fun resolve_status :: "field_value option list \<Rightarrow> jstr" where
  "resolve_status [] = Str ''Backlog''"
| "resolve_status (None # rest) = resolve_status rest"
| "resolve_status (Some fv # rest) =
     (case fv_field fv of
        None \<Rightarrow> resolve_status rest
      | Some f \<Rightarrow>
          (let field_name = (case fo_name f of None \<Rightarrow> [] | Some n \<Rightarrow> n)
           in if py_lower field_name \<in> set [''status'', ''state'']
              then (case fv_name fv of None \<Rightarrow> Str ''Backlog'' | Some s \<Rightarrow> s)
              else resolve_status rest))"

definition column_append :: "columns \<Rightarrow> string \<Rightarrow> issue_data \<Rightarrow> columns" where
  "column_append cols k v = map (\<lambda>(k', vs). if k' = k then (k', vs @ [v]) else (k', vs)) cols"

definition make_issue_data :: "int \<Rightarrow> content_obj \<Rightarrow> issue_data" where
  "make_issue_data n c =
     \<lparr>k_number = n, k_title = c_title c, k_url = c_url c, k_state = c_state c,
      k_labels = c_labels c, k_created_at = c_createdAt c, k_updated_at = c_updatedAt c\<rparr>"

text \<open>One iteration of the loop over \<open>all_items\<close>.\<close>

definition bucket_item :: "columns \<Rightarrow> raw_item \<Rightarrow> columns" where
  "bucket_item cols item =
     (case content item of
        None \<Rightarrow> cols
      | Some c \<Rightarrow>
          (let status = resolve_status (fieldValues item)
           in case c_number c of
                None \<Rightarrow> cols
              | Some n \<Rightarrow>
                  (let issue_data = make_issue_data n c
                   in case status of
                        Null \<Rightarrow> cols
                      | Str s \<Rightarrow> if s \<in> set (map fst cols) then column_append cols s issue_data
                                 else cols)))"

definition bucket_items :: "raw_item list \<Rightarrow> columns" where
  "bucket_items all_items = foldl bucket_item initial_columns all_items"

text \<open>
  A page of the item listing, and the API: what \<open>execute_graphql_query\<close> answers for a
  project and a cursor.  The answer is an exception, \<open>None\<close> when the response has no
  \<open>node\<close> or no \<open>items\<close>, or a page.
\<close>

record page =
  nodes :: "raw_item list"
  hasNextPage :: bool
  endCursor :: "string option"

type_synonym api = "string \<Rightarrow> string option \<Rightarrow> exn + page option"

text \<open>
  The loop that drains the pages.  It runs as long as the API announces a next page;
  the result is \<open>None\<close> when it never stops.
\<close>

partial_function (option) fetch_all_items ::
  "api \<Rightarrow> string \<Rightarrow> string option \<Rightarrow> raw_item list \<Rightarrow> (exn + raw_item list) option" where
  "fetch_all_items query project_id cursor all_items =
     (case query project_id cursor of
        Inl e \<Rightarrow> Some (Inl e)
      | Inr None \<Rightarrow> Some (Inr all_items)
      | Inr (Some pg) \<Rightarrow>
          if hasNextPage pg
          then fetch_all_items query project_id (endCursor pg) (all_items @ nodes pg)
          else Some (Inr (all_items @ nodes pg)))"

text \<open>\<open>get_project_items(project_id, board_name)\<close>.\<close>

definition get_project_items ::
  "api \<Rightarrow> string \<Rightarrow> string option \<Rightarrow> (exn + columns) option" where
  "get_project_items query project_id board_name =
     (case fetch_all_items query project_id None [] of
        None \<Rightarrow> None
      | Some (Inl e) \<Rightarrow> Some (Inl e)
      | Some (Inr all_items) \<Rightarrow> Some (Inr (bucket_items all_items)))"

section \<open>Kanban Summary Bot: the report\<close>

definition join_str :: "string \<Rightarrow> string list \<Rightarrow> string" where
  "join_str sep xs = (case xs of [] \<Rightarrow> [] | x # rest \<Rightarrow> foldl (\<lambda>acc y. acc @ sep @ y) x rest)"

text \<open>\<open>column_config\<close>: the columns in report order, with their markers.\<close>

definition column_config :: "(string \<times> string) list" where
  "column_config =
     [(''Backlog'', [CHR 0xC3, CHR 0xB0, CHR 0xC5, CHR 0xB8, CHR 0xE2, CHR 0x80, CHR 0x9C,
                     CHR 0xE2, CHR 0x80, CHR 0xB9]),
      (''Ready'', [CHR 0xC3, CHR 0xA2, CHR 0xC5, CHR 0x93, CHR 0xE2, CHR 0x80, CHR 0xA6]),
      (''In progress'', [CHR 0xC3, CHR 0xB0, CHR 0xC5, CHR 0xB8, CHR 0xE2, CHR 0x80, CHR 0x9D,
                         CHR 0xE2, CHR 0x80, CHR 0x9E]),
      (''In review'', [CHR 0xC3, CHR 0xB0, CHR 0xC5, CHR 0xB8, CHR 0xE2, CHR 0x80, CHR 0x98,
                       CHR 0xE2, CHR 0x82, CHR 0xAC]),
      (''Done'', [CHR 0xC3, CHR 0xA2, CHR 0xC5, CHR 0x93, CHR 0xE2, CHR 0x80, CHR 0x9D,
                  CHR 0xC3, CHR 0xAF, CHR 0xC2, CHR 0xB8])]"

definition issue_lines :: "issue_data \<Rightarrow> string" where
  "issue_lines i =
     (let labels_str = (if k_labels i \<noteq> [] then join_str '', '' (k_labels i) else ''no labels'')
      in ''- [#'' @ str_int (k_number i) @ '': '' @ k_title i @ '']('' @ k_url i @ '')\<newline>''
         @ ''  - **Labels:** '' @ labels_str @ ''\<newline>''
         @ ''  - **Status:** '' @ k_state i @ ''\<newline>'')"

definition column_section :: "columns \<Rightarrow> string \<times> string \<Rightarrow> string" where
  "column_section cols cfg =
     (case cfg of (column_name, emoji) \<Rightarrow>
        (let issues = (case map_of cols column_name of None \<Rightarrow> [] | Some l \<Rightarrow> l);
             count = length issues
         in ''## '' @ emoji @ '' '' @ column_name @ '' ('' @ str_nat count @ '')\<newline>\<newline>''
            @ (if issues = [] then ''*No issues in this column*\<newline>\<newline>''
               else foldl (\<lambda>report i. report @ issue_lines i) [] issues @ ''\<newline>'')))"

definition total_issues :: "columns \<Rightarrow> nat" where
  "total_issues cols = sum_list (map (\<lambda>(k, issues). length issues) cols)"

text \<open>
  \<open>format_kanban_summary(columns, project_name, board_name)\<close>, with the clock reading
  of the timestamp as first argument.
\<close>

definition format_kanban_summary :: "datetime \<Rightarrow> columns \<Rightarrow> string \<Rightarrow> string \<Rightarrow> string" where
  "format_kanban_summary now cols project_name board_name =
     foldl (\<lambda>report cfg. report @ column_section cols cfg)
       (''# Kanban Board Summary\<newline>\<newline>**Project:** '' @ project_name @ ''  \<newline>**Board:** ''
        @ board_name @ ''  \<newline>**Generated:** '' @ strftime_utc now
        @ ''  \<newline>**Total Issues:** '' @ str_nat (total_issues cols) @ ''\<newline>\<newline>'')
       column_config
     @ ''---\<newline>\<newline>''
     @ ''*This summary was automatically generated by the Kanban Summary Bot.*\<newline>''"

section \<open>Notions and sample inputs for the properties\<close>

text \<open>A float lies in \<open>[lo, hi]\<close>: it is finite and between the bounds.\<close>

definition in_range :: "rat \<Rightarrow> rat \<Rightarrow> pyfloat \<Rightarrow> bool" where
  "in_range lo hi v = (case v of Finite x \<Rightarrow> lo \<le> x \<and> x \<le> hi | _ \<Rightarrow> False)"

text \<open>A clock reading, 2024-03-01 12:00:00 UTC.\<close>

definition sample_now :: datetime where
  "sample_now = \<lparr>year = 2024, month = 3, day = 1, hour = 12, minute = 0, second = 0, microsecond = 0\<rparr>"

text \<open>An issue created 60 days before \<open>sample_now\<close>, with 20 comments.\<close>

definition sample_issue :: issue where
  "sample_issue =
     \<lparr>number = 42, title = ''Crash on start'', body = None, labels = [''bug'', ''urgent''],
      comments = 20,
      created_at = \<lparr>year = 2024, month = 1, day = 1, hour = 12, minute = 0, second = 0, microsecond = 0\<rparr>,
      html_url = ''https://github.com/o/r/issues/42''\<rparr>"

text \<open>An issue created at \<open>sample_now\<close>, and one created a second later; no comments.\<close>

definition fresh_issue :: issue where
  "fresh_issue = sample_issue\<lparr>comments := 0, created_at := sample_now\<rparr>"

definition future_issue :: issue where
  "future_issue = sample_issue\<lparr>comments := 0, created_at := sample_now\<lparr>second := 1\<rparr>\<rparr>"

text \<open>
  A parser that knows four literals and rejects every other token with the message of
  the builtin; the value of \<open>12.3\<close> is the binary64 value nearest to it.
\<close>

definition sample_float :: float_parser where
  "sample_float s =
     (if s = ''75'' then Inr (Finite 75)
      else if s = ''12'' then Inr (Finite 12)
      else if s = ''12.3'' then Inr (Finite (3462142213541069 / 2 ^ 48))
      else if s = ''nan'' then Inr NaN
      else Inl (Exn (''could not convert string to float: '' @ [CHR 0x27] @ s @ [CHR 0x27])))"

text \<open>
  Analyzers: the call raises, or answers with words, with blanks, with a number above
  the range, with a number followed by a no-break space, or with a decimal number.
\<close>

definition failing_llm :: llm where
  "failing_llm t b = Inl (Exn ''Connection timed out'')"

definition wordy_llm :: llm where
  "wordy_llm t b = Inr ''high priority''"

definition blank_llm :: llm where
  "blank_llm t b = Inr ''  \<newline>''"

definition numeric_llm :: llm where
  "numeric_llm t b = Inr '' 75 (critical)\<newline>''"

definition nbsp_llm :: llm where
  "nbsp_llm t b = Inr (''12'' @ [CHR 0xC2, CHR 0xA0] @ ''apples'')"

definition decimal_llm :: llm where
  "decimal_llm t b = Inr ''12.3''"

text \<open>The clock two days after \<open>sample_now\<close>.\<close>

definition later_now :: datetime where
  "later_now = sample_now\<lparr>day := 3\<rparr>"

text \<open>
  The entry of \<open>sample_issue\<close> in \<open>prioritized_issues\<close>, and the same entry with a
  context value of 12.5.
\<close>

definition sample_entry :: issue_entry where
  "sample_entry =
     \<lparr>d_number = 42, d_title = ''Crash on start'', d_url = ''https://github.com/o/r/issues/42'',
      d_created_at = created_at sample_issue, d_labels = ''bug, urgent'', d_comments = 20,
      d_priority_score = Finite 80,
      d_priority_breakdown = Some [(''age'', Finite 30), (''engagement'', Finite 50),
                                   (''context'', Finite 0)],
      d_summary = ''The program stops when it starts.'', d_reading_materials = Some []\<rparr>"

definition context_entry :: issue_entry where
  "context_entry =
     sample_entry\<lparr>d_priority_score := Finite (185 / 2),
       d_priority_breakdown := Some [(''age'', Finite 30), (''engagement'', Finite 50),
                                     (''context'', Finite (25 / 2))]\<rparr>"

text \<open>The clock five microseconds after \<open>sample_now\<close>.\<close>

definition micro_later_now :: datetime where
  "micro_later_now = sample_now\<lparr>microsecond := 5\<rparr>"

text \<open>The names of the columns, in the order of the dictionary \<open>columns\<close>.\<close>

definition column_names :: "string list" where
  "column_names = [''Backlog'', ''Ready'', ''In progress'', ''In review'', ''Done'']"

text \<open>
  The status of an item in the words of the specification: the selected name of the
  first field value whose field name is, in lower case, \<open>status\<close> or \<open>state\<close>, and
  \<open>Backlog\<close> when there is none.
\<close>

definition is_status_field :: "field_value option \<Rightarrow> bool" where
  "is_status_field node =
     (case node of
        None \<Rightarrow> False
      | Some fv \<Rightarrow>
          (case fv_field fv of
             None \<Rightarrow> False
           | Some f \<Rightarrow> py_lower (case fo_name f of None \<Rightarrow> [] | Some n \<Rightarrow> n)
                        \<in> set [''status'', ''state'']))"

definition selected_name :: "field_value option \<Rightarrow> jstr" where
  "selected_name node =
     (case node of
        None \<Rightarrow> Str ''Backlog''
      | Some fv \<Rightarrow> (case fv_name fv of None \<Rightarrow> Str ''Backlog'' | Some s \<Rightarrow> s))"

definition spec_status :: "field_value option list \<Rightarrow> jstr" where
  "spec_status fvs =
     (case find is_status_field fvs of None \<Rightarrow> Str ''Backlog'' | Some node \<Rightarrow> selected_name node)"

text \<open>
  The record an item contributes to the column \<open>k\<close>, in the words of the
  specification: none when the item has no content or its content has no number, and
  none when its status is not \<open>k\<close>.
\<close>

definition spec_column_entry :: "string \<Rightarrow> raw_item \<Rightarrow> issue_data option" where
  "spec_column_entry k item =
     (case content item of
        None \<Rightarrow> None
      | Some c \<Rightarrow>
          (case c_number c of
             None \<Rightarrow> None
           | Some n \<Rightarrow> if spec_status (fieldValues item) = Str k
                       then Some (make_issue_data n c) else None))"

text \<open>An item is placed when it has a numbered content and its status names a column.\<close>

definition spec_placed :: "raw_item \<Rightarrow> bool" where
  "spec_placed item =
     (case content item of
        None \<Rightarrow> False
      | Some c \<Rightarrow> c_number c \<noteq> None
                  \<and> (case spec_status (fieldValues item) of
                        Null \<Rightarrow> False | Str s \<Rightarrow> s \<in> set column_names))"

text \<open>
  Sample items: a single-select field value, the content of an issue, and items for an
  issue in progress, a draft, a pull request, an issue with the status \<open>Archived\<close>, an
  issue without status field, and an issue whose field \<open>STATE\<close> says \<open>Done\<close>.
\<close>

definition status_value :: "string \<Rightarrow> string \<Rightarrow> field_value option" where
  "status_value field_name option_name =
     Some \<lparr>fv_field = Some \<lparr>fo_name = Some field_name\<rparr>, fv_name = Some (Str option_name)\<rparr>"

definition sample_content :: "int \<Rightarrow> string \<Rightarrow> content_obj" where
  "sample_content n t =
     \<lparr>c_number = Some n, c_title = t, c_url = ''https://github.com/o/r/issues/'' @ str_int n,
      c_state = ''OPEN'', c_labels = [''bug''], c_createdAt = ''2025-01-01T00:00:00Z'',
      c_updatedAt = ''2025-01-02T00:00:00Z''\<rparr>"

definition progress_item :: raw_item where
  "progress_item =
     \<lparr>content = Some (sample_content 1 ''Fix bug''),
      fieldValues = [None, status_value ''Status'' ''In progress'']\<rparr>"

definition draft_item :: raw_item where
  "draft_item = \<lparr>content = None, fieldValues = [status_value ''Status'' ''Ready'']\<rparr>"

definition pull_request_item :: raw_item where
  "pull_request_item =
     \<lparr>content = Some ((sample_content 2 ''A pull request'')\<lparr>c_number := None\<rparr>),
      fieldValues = [status_value ''Status'' ''Ready'']\<rparr>"

definition archived_item :: raw_item where
  "archived_item =
     \<lparr>content = Some (sample_content 7 ''Old idea''),
      fieldValues = [status_value ''Status'' ''Archived'']\<rparr>"

definition plain_item :: raw_item where
  "plain_item =
     \<lparr>content = Some (sample_content 9 ''New idea''),
      fieldValues = [None, Some \<lparr>fv_field = None, fv_name = Some (Str ''Done'')\<rparr>,
                     status_value ''Priority'' ''Ready'']\<rparr>"

definition done_item :: raw_item where
  "done_item =
     \<lparr>content = Some (sample_content 3 ''Update docs''),
      fieldValues = [status_value ''STATE'' ''Done'', status_value ''Status'' ''Ready'']\<rparr>"

text \<open>
  An issue whose status field value has the name \<open>null\<close>, and one whose status field
  value has no key \<open>name\<close>.
\<close>

definition null_item :: raw_item where
  "null_item =
     \<lparr>content = Some (sample_content 11 ''No option chosen''),
      fieldValues = [Some \<lparr>fv_field = Some \<lparr>fo_name = Some ''Status''\<rparr>, fv_name = Some Null\<rparr>]\<rparr>"

definition nameless_item :: raw_item where
  "nameless_item =
     \<lparr>content = Some (sample_content 12 ''A text field called state''),
      fieldValues = [Some \<lparr>fv_field = Some \<lparr>fo_name = Some ''State''\<rparr>, fv_name = None\<rparr>]\<rparr>"

text \<open>An API that lists the six items on two pages, and one that lists a single item.\<close>

definition sample_api :: api where
  "sample_api project_id cursor =
     (if project_id \<noteq> ''PVT_1'' then Inr None
      else if cursor = None
      then Inr (Some \<lparr>nodes = [progress_item, draft_item, pull_request_item],
                       hasNextPage = True, endCursor = Some ''c1''\<rparr>)
      else if cursor = Some ''c1''
      then Inr (Some \<lparr>nodes = [archived_item, plain_item, done_item],
                       hasNextPage = False, endCursor = Some ''c2''\<rparr>)
      else Inl (Exn ''GraphQL query returned errors''))"

definition archived_api :: api where
  "archived_api project_id cursor =
     Inr (Some \<lparr>nodes = [archived_item], hasNextPage = False, endCursor = None\<rparr>)"

section \<open>Properties\<close>

text \<open>
  Binary64 rounding: the exponent brackets the number, the rounded value is the nearest
  multiple of the spacing, it keeps the sign and an integer bound, and below 256 it is
  within \<open>2\<^sup>-\<^sup>4\<^sup>6\<close> of the number.
\<close>

lemma ilog2_bounds: "0 < n \<Longrightarrow> 2 ^ ilog2 n \<le> n \<and> n < 2 ^ Suc (ilog2 n)"
proof (induction n rule: ilog2.induct)
  case (1 n)
  show ?case
  proof (cases "n < 2")
    case True
    with 1 have "n = 1" by simp
    then show ?thesis by (simp add: ilog2.simps)
  next
    case False
    then have "0 < n div 2" by simp
    with 1 False have ih: "2 ^ ilog2 (n div 2) \<le> n div 2" "n div 2 < 2 ^ Suc (ilog2 (n div 2))"
      by simp_all
    have e: "ilog2 n = Suc (ilog2 (n div 2))" using False by (subst ilog2.simps) simp
    from ih show ?thesis unfolding e by (simp; arith)
  qed
qed

lemma round_half_even_cases:
  assumes "0 \<le> z"
  shows "(round_half_even z = nat \<lfloor>z\<rfloor> \<and> z - of_int \<lfloor>z\<rfloor> \<le> 1 / 2)
       \<or> (round_half_even z = nat \<lfloor>z\<rfloor> + 1 \<and> 1 / 2 \<le> z - of_int \<lfloor>z\<rfloor>)"
  by (auto simp: round_half_even_def Let_def)

lemma round_half_even_error:
  assumes "0 \<le> z"
  shows "\<bar>of_nat (round_half_even z) - z\<bar> \<le> 1 / 2"
proof -
  have f: "0 \<le> \<lfloor>z\<rfloor>" using assms by simp
  have l: "of_int \<lfloor>z\<rfloor> \<le> z" "z < of_int \<lfloor>z\<rfloor> + 1" by linarith+
  from round_half_even_cases [OF assms] show ?thesis
  proof
    assume a: "round_half_even z = nat \<lfloor>z\<rfloor> \<and> z - of_int \<lfloor>z\<rfloor> \<le> 1 / 2"
    then have "(of_nat (round_half_even z) :: rat) = of_int \<lfloor>z\<rfloor>" using f by simp
    with a l show ?thesis by linarith
  next
    assume a: "round_half_even z = nat \<lfloor>z\<rfloor> + 1 \<and> 1 / 2 \<le> z - of_int \<lfloor>z\<rfloor>"
    then have "(of_nat (round_half_even z) :: rat) = of_int \<lfloor>z\<rfloor> + 1" using f by simp
    with a l show ?thesis by linarith
  qed
qed

lemma round_half_even_le:
  assumes "0 \<le> z" and "z \<le> of_nat N"
  shows "round_half_even z \<le> N"
proof -
  have f: "0 \<le> \<lfloor>z\<rfloor>" using assms by simp
  have fl: "\<lfloor>z\<rfloor> \<le> int N" using assms(2) by (simp add: floor_le_iff)
  from round_half_even_cases [OF assms(1)] show ?thesis
  proof
    assume "round_half_even z = nat \<lfloor>z\<rfloor> \<and> z - of_int \<lfloor>z\<rfloor> \<le> 1 / 2"
    with fl show ?thesis by simp
  next
    assume a: "round_half_even z = nat \<lfloor>z\<rfloor> + 1 \<and> 1 / 2 \<le> z - of_int \<lfloor>z\<rfloor>"
    then have "of_int \<lfloor>z\<rfloor> < z" by linarith
    with assms(2) have "(of_int \<lfloor>z\<rfloor> :: rat) < of_int (int N)" by simp
    then have "\<lfloor>z\<rfloor> < int N" by (simp only: of_int_less_iff)
    with f have "nat \<lfloor>z\<rfloor> + 1 \<le> N" by linarith
    with a show ?thesis by simp
  qed
qed

lemma round_half_even_of_nat: "round_half_even (of_nat n) = n"
  by (simp add: round_half_even_def Let_def)

lemma float_exponent_bounds:
  assumes "x \<noteq> 0"
  shows "2 powi float_exponent x \<le> \<bar>x\<bar> \<and> \<bar>x\<bar> < 2 powi (float_exponent x + 1)"
proof (cases "1 \<le> \<bar>x\<bar>")
  case True
  define n where "n = nat \<lfloor>\<bar>x\<bar>\<rfloor>"
  have fl: "1 \<le> \<lfloor>\<bar>x\<bar>\<rfloor>" using True by (simp add: le_floor_iff)
  then have n: "0 < n" "int n = \<lfloor>\<bar>x\<bar>\<rfloor>" by (simp_all add: n_def)
  have e: "float_exponent x = int (ilog2 n)" using True by (simp add: float_exponent_def n_def)
  from ilog2_bounds [OF n(1)] have b: "2 ^ ilog2 n \<le> n" "n < 2 ^ Suc (ilog2 n)" by simp_all
  have nn: "(of_int \<lfloor>\<bar>x\<bar>\<rfloor> :: rat) = of_nat n"
    using n(2) by (metis of_int_of_nat_eq)
  have "(of_nat n :: rat) \<le> \<bar>x\<bar>"
    using nn of_int_floor_le [of "\<bar>x\<bar>"] by simp
  moreover have "(2 :: rat) ^ ilog2 n \<le> of_nat n"
    using b(1) by (metis of_nat_le_iff of_nat_numeral of_nat_power)
  ultimately have lo: "(2 :: rat) ^ ilog2 n \<le> \<bar>x\<bar>" by linarith
  have "\<bar>x\<bar> < of_int \<lfloor>\<bar>x\<bar>\<rfloor> + 1" by linarith
  then have "\<bar>x\<bar> < of_nat (n + 1)" using nn by simp
  moreover have "(of_nat (n + 1) :: rat) \<le> 2 ^ Suc (ilog2 n)"
  proof -
    from b(2) have "n + 1 \<le> 2 ^ Suc (ilog2 n)" by simp
    then show ?thesis by (metis of_nat_le_iff of_nat_numeral of_nat_power)
  qed
  ultimately have hi: "\<bar>x\<bar> < (2 :: rat) ^ Suc (ilog2 n)" by linarith
  have p: "(2 :: rat) powi (int (ilog2 n) + 1) = 2 ^ Suc (ilog2 n)"
    by (simp add: power_int_add)
  from lo hi show ?thesis unfolding e p by simp
next
  case False
  define y where "y = 1 / \<bar>x\<bar>"
  define m where "m = nat \<lceil>y\<rceil> - 1"
  have x: "0 < \<bar>x\<bar>" "\<bar>x\<bar> < 1" using assms False by simp_all
  then have y: "1 < y" by (simp add: y_def)
  then have c: "2 \<le> \<lceil>y\<rceil>" by (simp add: le_ceiling_iff)
  then have m: "0 < m" "int m + 1 = \<lceil>y\<rceil>" unfolding m_def by linarith+
  have e: "float_exponent x = - int (Suc (ilog2 m))"
    using False by (simp add: float_exponent_def m_def y_def)
  from ilog2_bounds [OF m(1)] have b: "2 ^ ilog2 m \<le> m" "m < 2 ^ Suc (ilog2 m)" by simp_all
  have mm: "(of_int \<lceil>y\<rceil> :: rat) = of_nat (m + 1)"
  proof -
    have "\<lceil>y\<rceil> = int (m + 1)" using m(2) by simp
    then show ?thesis by (metis of_int_of_nat_eq)
  qed
  have "y \<le> of_int \<lceil>y\<rceil>" by simp
  also have "\<dots> = of_nat (m + 1)" by (rule mm)
  also have "\<dots> \<le> 2 ^ Suc (ilog2 m)"
  proof -
    from b(2) have "m + 1 \<le> 2 ^ Suc (ilog2 m)" by simp
    then show ?thesis by (metis of_nat_le_iff of_nat_numeral of_nat_power)
  qed
  finally have yhi: "y \<le> 2 ^ Suc (ilog2 m)" .
  have "(2 :: rat) ^ ilog2 m \<le> of_nat m"
    using b(1) by (metis of_nat_le_iff of_nat_numeral of_nat_power)
  moreover have "of_int \<lceil>y\<rceil> - 1 < y" by linarith
  moreover have "(of_nat m :: rat) = of_int \<lceil>y\<rceil> - 1"
    using mm by simp
  ultimately have ylo: "(2 :: rat) ^ ilog2 m < y" by linarith
  have lo: "1 / 2 ^ Suc (ilog2 m) \<le> \<bar>x\<bar>"
  proof -
    have "1 \<le> \<bar>x\<bar> * 2 ^ Suc (ilog2 m)"
      using yhi x(1) unfolding y_def by (simp add: field_simps)
    then show ?thesis by (simp add: field_simps)
  qed
  have hi: "\<bar>x\<bar> < 1 / 2 ^ ilog2 m"
  proof -
    have "\<bar>x\<bar> * 2 ^ ilog2 m < 1"
      using ylo x(1) unfolding y_def by (simp add: field_simps)
    then show ?thesis by (simp add: field_simps)
  qed
  have p1: "(2 :: rat) powi (- int (Suc (ilog2 m))) = 1 / 2 ^ Suc (ilog2 m)"
    using power_int_minus_divide [of "2 :: rat" "int (Suc (ilog2 m))"]
    by (simp only: power_int_of_nat)
  have "- int (Suc (ilog2 m)) + 1 = - int (ilog2 m)" by simp
  then have p2: "(2 :: rat) powi (- int (Suc (ilog2 m)) + 1) = 1 / 2 ^ ilog2 m"
    using power_int_minus_divide [of "2 :: rat" "int (ilog2 m)"]
    by (simp only: power_int_of_nat)
  from lo hi show ?thesis unfolding e p1 p2 by simp
qed

lemma round_binary64_scaled:
  assumes "0 < x" and "x < 2 ^ n" and "n \<le> 52"
  shows "\<exists>j. 53 \<le> j + n
           \<and> round_binary64 x = of_nat (round_half_even (x * 2 ^ j)) / 2 ^ j"
proof -
  define e where "e = float_exponent x"
  define k where "k = max (e - 52) (- 1074)"
  define j where "j = nat (- k)"
  from assms(1) have nz: "x \<noteq> 0" and ax: "\<bar>x\<bar> = x" and sx: "sgn x = 1" by simp_all
  from float_exponent_bounds [OF nz] have "2 powi e \<le> x" by (simp add: e_def ax)
  with assms(2) have "(2 :: rat) powi e < 2 powi (int n)" by simp
  then have "e < int n"
    using power_int_increasing [of "int n" e "2 :: rat"] by (cases "e < int n") auto
  with assms(3) have kl: "k \<le> int n - 53" "k \<le> 0" by (simp_all add: k_def)
  then have jn: "53 \<le> j + n" and kj: "k = - int j" by (simp_all add: j_def)
  have q: "(2 :: rat) powi k = 1 / 2 ^ j"
    unfolding kj using power_int_minus_divide [of "2 :: rat" "int j"]
    by (simp only: power_int_of_nat)
  have "round_binary64 x = of_nat (round_half_even (x / (1 / 2 ^ j))) * (1 / 2 ^ j)"
    using nz by (simp add: round_binary64_def Let_def ax sx q [unfolded k_def e_def])
  then have "round_binary64 x = of_nat (round_half_even (x * 2 ^ j)) / 2 ^ j" by simp
  with jn show ?thesis by blast
qed

lemma round_binary64_nonneg: "0 \<le> x \<Longrightarrow> 0 \<le> round_binary64 x"
  by (simp add: round_binary64_def Let_def sgn_if)

lemma round_binary64_nonpos: "x \<le> 0 \<Longrightarrow> round_binary64 x \<le> 0"
  by (simp add: round_binary64_def Let_def sgn_if mult_le_0_iff)

lemma round_binary64_le_nat:
  assumes "x \<le> of_nat N" and "N < 2 ^ 52"
  shows "round_binary64 x \<le> of_nat N"
proof (cases "0 < x")
  case False
  then have "round_binary64 x \<le> 0" by (simp add: round_binary64_nonpos)
  then show ?thesis by (metis of_nat_0_le_iff order_trans)
next
  case True
  have "(of_nat N :: rat) < 2 ^ 52"
    using assms(2) by (metis of_nat_less_iff of_nat_numeral of_nat_power)
  with assms(1) have "x < 2 ^ 52" by linarith
  from round_binary64_scaled [OF True this] obtain j where
    r: "round_binary64 x = of_nat (round_half_even (x * 2 ^ j)) / 2 ^ j" by auto
  have "x * 2 ^ j \<le> of_nat (N * 2 ^ j)"
    using assms(1) by (simp add: mult_right_mono)
  moreover have "0 \<le> x * 2 ^ j" using True by simp
  ultimately have "round_half_even (x * 2 ^ j) \<le> N * 2 ^ j" by (intro round_half_even_le)
  then have "(of_nat (round_half_even (x * 2 ^ j)) :: rat) \<le> of_nat (N * 2 ^ j)"
    by (simp only: of_nat_le_iff)
  then have "of_nat (round_half_even (x * 2 ^ j)) / 2 ^ j \<le> (of_nat N :: rat)"
    by (simp add: field_simps)
  with r show ?thesis by simp
qed

lemma round_binary64_error:
  assumes "0 \<le> x" and "x < 2 ^ 8"
  shows "\<bar>round_binary64 x - x\<bar> \<le> 1 / 2 ^ 46"
proof (cases "x = 0")
  case True
  then show ?thesis by (simp add: round_binary64_def)
next
  case False
  with assms(1) have pos: "0 < x" by simp
  from round_binary64_scaled [OF pos assms(2)] obtain j where
    j: "53 \<le> j + 8" and r: "round_binary64 x = of_nat (round_half_even (x * 2 ^ j)) / 2 ^ j"
    by auto
  have "0 \<le> x * 2 ^ j" using pos by simp
  from round_half_even_error [OF this]
  have "\<bar>of_nat (round_half_even (x * 2 ^ j)) - x * 2 ^ j\<bar> / 2 ^ j \<le> (1 / 2) / 2 ^ j"
    by (rule divide_right_mono) simp
  moreover have "\<bar>of_nat (round_half_even (x * 2 ^ j)) - x * 2 ^ j\<bar> / 2 ^ j
               = \<bar>round_binary64 x - x\<bar>"
  proof -
    have "round_binary64 x - x = (of_nat (round_half_even (x * 2 ^ j)) - x * 2 ^ j) / 2 ^ j"
      by (simp add: r diff_divide_distrib)
    then show ?thesis by (simp add: abs_divide)
  qed
  moreover have "(1 / 2) / 2 ^ j \<le> (1 :: rat) / 2 ^ 46"
  proof -
    have "45 \<le> j" using j by simp
    then have "(2 :: rat) ^ 45 \<le> 2 ^ j" by (intro power_increasing) simp_all
    then have "(2 :: rat) ^ 46 \<le> 2 * 2 ^ j" by simp
    then have "1 / (2 * 2 ^ j) \<le> (1 :: rat) / 2 ^ 46"
      by (intro divide_left_mono) simp_all
    then show ?thesis by simp
  qed
  ultimately show ?thesis by linarith
qed

lemma py_min_Finite: "py_min (Finite x) (Finite y) = Finite (min x y)"
  by (simp add: py_min_def min_def)

lemma round_binary64_minus: "round_binary64 (- x) = - round_binary64 x"
  by (simp add: round_binary64_def float_exponent_def Let_def)

lemma round_binary64_half_nat:
  assumes "m < 2 ^ 53"
  shows "round_binary64 (of_nat m / 2) = of_nat m / 2"
proof (cases "m = 0")
  case True
  then show ?thesis by (simp add: round_binary64_def)
next
  case False
  let ?x = "of_nat m / 2 :: rat"
  have pos: "0 < ?x" using False by simp
  have "(of_nat m :: rat) < 2 ^ 53"
    using assms by (metis of_nat_less_iff of_nat_numeral of_nat_power)
  then have "?x < 2 ^ 52" by simp
  from round_binary64_scaled [OF pos this] obtain j where
    j: "53 \<le> j + 52" and r: "round_binary64 ?x = of_nat (round_half_even (?x * 2 ^ j)) / 2 ^ j"
    by auto
  from j obtain i where i: "j = Suc i" by (cases j) simp_all
  have "?x * 2 ^ j = of_nat (m * 2 ^ i)" by (simp add: i)
  then have "round_half_even (?x * 2 ^ j) = m * 2 ^ i"
    by (simp only: round_half_even_of_nat)
  with r show ?thesis by (simp add: i)
qed

lemma round_binary64_half_int:
  assumes "\<bar>m\<bar> < 2 ^ 53"
  shows "round_binary64 (of_int m / 2) = of_int m / 2"
proof (cases "0 \<le> m")
  case True
  then have "nat m < 2 ^ 53" using assms by (simp add: nat_less_iff)
  from round_binary64_half_nat [OF this] True show ?thesis by simp
next
  case False
  then have n: "nat (- m) < 2 ^ 53" using assms by (simp add: nat_less_iff)
  have "(of_int m :: rat) / 2 = - (of_nat (nat (- m)) / 2)" using False by simp
  then have "round_binary64 (of_int m / 2) = - round_binary64 (of_nat (nat (- m)) / 2)"
    by (simp only: round_binary64_minus)
  with round_binary64_half_nat [OF n] False show ?thesis by simp
qed

text \<open>
  The sum of the age score and the engagement score does not round: for every number of
  days a \<open>timedelta\<close> holds, the binary64 addition of the two scores is their exact
  sum.
\<close>

lemma pyfloat_add_exact_agrees:
  assumes "\<bar>d\<bar> \<le> 999999999"
  shows "pyfloat_add (py_min (Finite (of_int d / 2)) (Finite 50))
           (py_min (Finite (of_nat (c * 3))) (Finite 50))
       = pyfloat_add_exact (py_min (Finite (of_int d / 2)) (Finite 50))
           (py_min (Finite (of_nat (c * 3))) (Finite 50))"
proof -
  define m where "m = min d 100 + 2 * int (min (c * 3) 50)"
  have a: "min (of_int d / 2) (50 :: rat) = of_int (min d 100) / 2"
    by (simp add: min_def)
  have e: "min (of_nat (c * 3)) (50 :: rat) = of_int (int (min (c * 3) 50))"
    by (simp add: min_def)
  have s: "min (of_int d / 2) (50 :: rat) + min (of_nat (c * 3)) 50 = of_int m / 2"
    unfolding a e m_def by simp
  have "\<bar>m\<bar> < 2 ^ 53" using assms by (simp add: m_def)
  from round_binary64_half_int [OF this]
  have "round_binary64 (min (of_int d / 2) 50 + min (of_nat (c * 3)) 50)
      = min (of_int d / 2) 50 + min (of_nat (c * 3)) 50"
    by (simp only: s)
  then show ?thesis by (simp add: py_min_Finite)
qed

lemmas date_defs = calculate_issue_age_def timedelta_days_def seconds_of_day_def
  microseconds_per_day_def toordinal_def days_before_year_def days_before_month_def
  days_before_month_table_def is_leap_def instant_def

lemma calculate_issue_age_instant:
  "calculate_issue_age now c = (instant now - instant c) div microseconds_per_day"
  by (simp add: calculate_issue_age_def timedelta_days_def instant_def algebra_simps)

lemma gps_None:
  "get_priority_score now fo i None =
     (\<lparr>total = Finite (min (of_int (calculate_issue_age now (created_at i)) / 2) 50
                        + min (of_nat (comments i * 3)) 50),
       breakdown = \<lparr>age = Finite (min (of_int (calculate_issue_age now (created_at i)) / 2) 50),
                    engagement = Finite (min (of_nat (comments i * 3)) 50),
                    context' = Finite 0\<rparr>\<rparr>, [])"
  by (simp add: get_priority_score_def Let_def py_min_Finite)

text \<open>
  Claim C1.  Without an analyzer the total of \<open>get_priority_score\<close> is
  \<open>min(age_days / 2, 50) + min(comments * 3, 50)\<close>, where \<open>age_days\<close> is the number of
  whole days between the clock reading and \<open>created_at\<close>; an issue aged 60 days with 20
  comments scores 80, an issue aged 0 days with 0 comments scores 0.
\<close>

theorem get_priority_score_no_analyzer_total:
  "total (fst (get_priority_score now fo i None)) =
     Finite (min (of_int (calculate_issue_age now (created_at i)) / 2) 50
             + min (of_nat (comments i) * 3) 50)
   \<and> calculate_issue_age now (created_at i)
       = (instant now - instant (created_at i)) div microseconds_per_day
   \<and> (calculate_issue_age now (created_at i) = 60 \<and> comments i = 20
        \<longrightarrow> total (fst (get_priority_score now fo i None)) = Finite 80)
   \<and> (calculate_issue_age now (created_at i) = 0 \<and> comments i = 0
        \<longrightarrow> total (fst (get_priority_score now fo i None)) = Finite 0)"
  by (simp add: gps_None calculate_issue_age_instant)

lemma sample_age: "calculate_issue_age sample_now (created_at sample_issue) = 60"
  by (simp add: date_defs sample_now_def sample_issue_def)

lemma fresh_age: "calculate_issue_age sample_now (created_at fresh_issue) = 0"
  by (simp add: date_defs sample_now_def fresh_issue_def)

text \<open>
  The two particular cases of claim C1 at sample issues: one created 60 days before the
  clock reading with 20 comments, one created at the clock reading with none.
\<close>

theorem get_priority_score_no_analyzer_total_witness:
  "calculate_issue_age sample_now (created_at sample_issue) = 60 \<and> comments sample_issue = 20
   \<and> total (fst (get_priority_score sample_now sample_float sample_issue None)) = Finite 80
   \<and> calculate_issue_age sample_now (created_at fresh_issue) = 0 \<and> comments fresh_issue = 0
   \<and> total (fst (get_priority_score sample_now sample_float fresh_issue None)) = Finite 0"
proof -
  have a: "calculate_issue_age sample_now (created_at sample_issue) = 60 \<and> comments sample_issue = 20"
    by (simp add: sample_age) (simp add: sample_issue_def)
  have b: "calculate_issue_age sample_now (created_at fresh_issue) = 0 \<and> comments fresh_issue = 0"
    by (simp add: fresh_age) (simp add: fresh_issue_def)
  from a b get_priority_score_no_analyzer_total [of sample_now sample_float sample_issue]
    get_priority_score_no_analyzer_total [of sample_now sample_float fresh_issue]
  show ?thesis by blast
qed

lemma clamp_score_Finite:
  "\<exists>c. clamp_score v = Finite c \<and> 0 \<le> c \<and> c \<le> 50"
  by (cases v) (auto simp: clamp_score_def py_min_def py_max_def)

lemma clamp_score_in_range: "in_range 0 50 (clamp_score v)"
  using clamp_score_Finite [of v] by (auto simp: in_range_def)

lemma analyze_Finite:
  "\<exists>c. fst (analyze_contextual_priority fo l i) = Finite c \<and> 0 \<le> c \<and> c \<le> 50"
  using clamp_score_Finite
  by (auto simp: analyze_contextual_priority_def split: sum.splits list.splits)

lemma clamp_score_eq:
  "clamp_score (Finite x) = Finite (max 0 (min x 50))"
  "clamp_score PosInf = Finite 50" "clamp_score NegInf = Finite 0" "clamp_score NaN = Finite 0"
  by (simp_all add: clamp_score_def py_min_def py_max_def max_def min_def)

lemma gps_Some:
  "get_priority_score now fo i (Some l) =
     (\<lparr>total = pyfloat_add
                 (Finite (min (of_int (calculate_issue_age now (created_at i)) / 2) 50
                          + min (of_nat (comments i * 3)) 50))
                 (fst (analyze_contextual_priority fo l i)),
       breakdown = \<lparr>age = Finite (min (of_int (calculate_issue_age now (created_at i)) / 2) 50),
                    engagement = Finite (min (of_nat (comments i * 3)) 50),
                    context' = fst (analyze_contextual_priority fo l i)\<rparr>\<rparr>,
      snd (analyze_contextual_priority fo l i))"
  by (simp add: get_priority_score_def Let_def py_min_Finite split: prod.splits)

lemma age_nonneg_iff:
  "0 \<le> calculate_issue_age now c \<longleftrightarrow> instant c \<le> instant now"
  by (simp add: calculate_issue_age_instant microseconds_per_day_def pos_imp_zdiv_nonneg_iff)

lemma gps_components:
  "\<exists>c. 0 \<le> c \<and> c \<le> 50 \<and>
     get_priority_score now fo i l =
       (\<lparr>total = pyfloat_add
                   (Finite (min (of_int (calculate_issue_age now (created_at i)) / 2) 50
                            + min (of_nat (comments i * 3)) 50))
                   (Finite c),
         breakdown = \<lparr>age = Finite (min (of_int (calculate_issue_age now (created_at i)) / 2) 50),
                      engagement = Finite (min (of_nat (comments i * 3)) 50),
                      context' = Finite c\<rparr>\<rparr>,
        snd (get_priority_score now fo i l))"
proof (cases l)
  case None
  then show ?thesis by (simp add: gps_None)
next
  case (Some f)
  obtain c where c: "fst (analyze_contextual_priority fo f i) = Finite c" "0 \<le> c" "c \<le> 50"
    using analyze_Finite by blast
  with Some show ?thesis by (simp add: gps_Some)
qed

lemma float_sum_bounds:
  assumes "s \<le> 100" and "0 \<le> c" and "c \<le> 50"
  shows "\<exists>t. pyfloat_add (Finite s) (Finite c) = Finite t \<and> t \<le> 150
           \<and> (c = 0 \<longrightarrow> t = s)
           \<and> (0 \<le> s \<longrightarrow> 0 \<le> t \<and> \<bar>t - (s + c)\<bar> \<le> 1 / 2 ^ 46)"
proof (cases "c = 0 \<or> s = 0")
  case True
  with assms show ?thesis by auto
next
  case False
  then have p: "pyfloat_add (Finite s) (Finite c) = Finite (round_binary64 (s + c))" by simp
  have "s + c \<le> of_nat 150" using assms by simp
  then have u: "round_binary64 (s + c) \<le> of_nat 150" by (rule round_binary64_le_nat) simp
  have "0 \<le> s \<longrightarrow> 0 \<le> round_binary64 (s + c)
          \<and> \<bar>round_binary64 (s + c) - (s + c)\<bar> \<le> 1 / 2 ^ 46"
  proof
    assume "0 \<le> s"
    with assms have n: "0 \<le> s + c" and m: "s + c < 2 ^ 8" by simp_all
    from n have "0 \<le> round_binary64 (s + c)" by (rule round_binary64_nonneg)
    moreover from n m have "\<bar>round_binary64 (s + c) - (s + c)\<bar> \<le> 1 / 2 ^ 46"
      by (rule round_binary64_error)
    ultimately show "0 \<le> round_binary64 (s + c)
          \<and> \<bar>round_binary64 (s + c) - (s + c)\<bar> \<le> 1 / 2 ^ 46" ..
  qed
  with p u False show ?thesis by (simp del: pyfloat_add.simps)
qed

text \<open>
  Claim C2, amended.  For every issue, with or without an analyzer, the engagement and
  the context component lie in \<open>[0, 50]\<close>, the age component is at most 50, and the
  total is the sum \<open>(age + engagement) + context\<close> as binary64 arithmetic computes it,
  at most 150; it is the exact sum when the context component is 0.  When \<open>created_at\<close>
  is not later than the clock reading, the age component lies in \<open>[0, 50]\<close>, the total
  lies in \<open>[0, 150]\<close> and differs from the exact sum by at most \<open>2\<^sup>-\<^sup>4\<^sup>6\<close>; when
  \<open>created_at\<close> is later than the clock reading, the age component is negative.
\<close>

theorem priority_breakdown_bounds:
  "\<exists>a e c t. breakdown (fst (get_priority_score now fo i l))
             = \<lparr>age = Finite a, engagement = Finite e, context' = Finite c\<rparr>
     \<and> total (fst (get_priority_score now fo i l)) = Finite t
     \<and> Finite t = pyfloat_add (pyfloat_add_exact (Finite a) (Finite e)) (Finite c)
     \<and> (c = 0 \<longrightarrow> t = a + e)
     \<and> a \<le> 50 \<and> 0 \<le> e \<and> e \<le> 50 \<and> 0 \<le> c \<and> c \<le> 50 \<and> t \<le> 150
     \<and> (instant (created_at i) \<le> instant now
          \<longrightarrow> 0 \<le> a \<and> 0 \<le> t \<and> \<bar>t - (a + e + c)\<bar> \<le> 1 / 2 ^ 46)
     \<and> (instant now < instant (created_at i) \<longrightarrow> a < 0)"
proof -
  let ?d = "calculate_issue_age now (created_at i)"
  let ?a = "min (of_int ?d / 2) (50::rat)"
  let ?e = "min (of_nat (comments i * 3)) (50::rat)"
  obtain c where c: "0 \<le> c" "c \<le> 50"
    and g: "get_priority_score now fo i l =
       (\<lparr>total = pyfloat_add (Finite (?a + ?e)) (Finite c),
         breakdown = \<lparr>age = Finite ?a, engagement = Finite ?e, context' = Finite c\<rparr>\<rparr>,
        snd (get_priority_score now fo i l))"
    using gps_components [of now fo i l] by blast
  have e: "0 \<le> ?e" "?e \<le> 50" by simp_all
  have a: "?a \<le> 50" by simp
  have pos: "instant (created_at i) \<le> instant now \<Longrightarrow> 0 \<le> ?a"
    using age_nonneg_iff [of now "created_at i"] by simp
  have neg: "instant now < instant (created_at i) \<Longrightarrow> ?a < 0"
  proof -
    assume "instant now < instant (created_at i)"
    then have "?d < 0" using age_nonneg_iff [of now "created_at i"] by simp
    then have "(of_int ?d :: rat) < 0" by simp
    then show "?a < 0" by (simp add: min_less_iff_disj)
  qed
  have "?a + ?e \<le> 100" using a e by linarith
  from float_sum_bounds [OF this c] obtain t where
    t: "pyfloat_add (Finite (?a + ?e)) (Finite c) = Finite t" "t \<le> 150" "c = 0 \<longrightarrow> t = ?a + ?e"
      "0 \<le> ?a + ?e \<longrightarrow> 0 \<le> t \<and> \<bar>t - (?a + ?e + c)\<bar> \<le> 1 / 2 ^ 46"
    by blast
  have b: "breakdown (fst (get_priority_score now fo i l))
             = \<lparr>age = Finite ?a, engagement = Finite ?e, context' = Finite c\<rparr>"
    by (subst g) simp
  have tt: "total (fst (get_priority_score now fo i l)) = Finite t"
    using t(1) by (subst g) (simp del: pyfloat_add.simps)
  have x: "Finite t = pyfloat_add (pyfloat_add_exact (Finite ?a) (Finite ?e)) (Finite c)"
    using t(1) by (simp del: pyfloat_add.simps)
  have p: "instant (created_at i) \<le> instant now
          \<longrightarrow> 0 \<le> ?a \<and> 0 \<le> t \<and> \<bar>t - (?a + ?e + c)\<bar> \<le> 1 / 2 ^ 46"
    using pos e(1) t(4) by auto
  from b tt x t(2,3) a e c p neg show ?thesis
    by (intro exI [of _ ?a] exI [of _ ?e] exI [of _ c] exI [of _ t]) blast
qed

lemma future_instant: "instant sample_now < instant (created_at future_issue)"
  by (simp add: date_defs sample_now_def future_issue_def sample_issue_def)

lemma sample_instant: "instant (created_at sample_issue) \<le> instant sample_now"
  by (simp add: date_defs sample_now_def sample_issue_def)

lemma future_age: "calculate_issue_age sample_now (created_at future_issue) = - 1"
  by (simp add: date_defs sample_now_def future_issue_def sample_issue_def)

text \<open>
  Claim C2 as stated fails for an issue created one second after the clock reading: its
  age is \<open>-1\<close> day and its age component \<open>-0.5\<close>.
\<close>

theorem future_issue_age_counterexample:
  "instant sample_now < instant (created_at future_issue)
   \<and> age (breakdown (fst (get_priority_score sample_now sample_float future_issue None)))
       = Finite (- 1 / 2)
   \<and> \<not> in_range 0 50
          (age (breakdown (fst (get_priority_score sample_now sample_float future_issue None))))"
  by (simp add: future_instant gps_None future_age in_range_def)

lemma floor_rat_numeral: "\<lfloor>numeral a / numeral b :: rat\<rfloor> = numeral a div numeral b"
  by (metis floor_divide_of_int_eq of_int_numeral)

lemma ceiling_rat_numeral:
  "\<lceil>numeral a / numeral b :: rat\<rceil> = - (- numeral a div numeral b)"
  by (metis ceiling_divide_eq_div of_int_numeral)

lemmas float_eval = round_binary64_def float_exponent_def ilog2.simps round_half_even_def
  Let_def floor_rat_numeral ceiling_rat_numeral power_int_minus

lemma split_decimal: "py_split (py_strip ''12.3'') = [''12.3'']"
  by (simp add: py_split_def py_strip_def utf8_chars_def is_continuation_def is_space_def)

lemma decimal_analysis:
  "analyze_contextual_priority sample_float decimal_llm sample_issue
     = (Finite (3462142213541069 / 2 ^ 48), [])"
  by (simp add: analyze_contextual_priority_def decimal_llm_def split_decimal sample_float_def
      clamp_score_eq)

lemma decimal_total:
  "pyfloat_add (Finite 80) (Finite (3462142213541069 / 2 ^ 48))
     = Finite (25980140350393548 / 2 ^ 48)"
  by (simp add: float_eval)

text \<open>
  The amended claim C2 at an issue created before the clock reading, scored with an
  analyzer that answers 12.3: the components are 30, 50 and the binary64 value of 12.3,
  and the total is the binary64 sum, one unit in the last place below the exact sum.
  And at an issue created after the clock reading.
\<close>

theorem priority_breakdown_bounds_witness:
  "instant (created_at sample_issue) \<le> instant sample_now
   \<and> instant sample_now < instant (created_at future_issue)
   \<and> breakdown (fst (get_priority_score sample_now sample_float sample_issue (Some decimal_llm)))
       = \<lparr>age = Finite 30, engagement = Finite 50,
          context' = Finite (3462142213541069 / 2 ^ 48)\<rparr>
   \<and> total (fst (get_priority_score sample_now sample_float sample_issue (Some decimal_llm)))
       = Finite (25980140350393548 / 2 ^ 48)
   \<and> (\<exists>a e c t. breakdown (fst (get_priority_score sample_now sample_float sample_issue
                                  (Some decimal_llm)))
             = \<lparr>age = Finite a, engagement = Finite e, context' = Finite c\<rparr>
        \<and> total (fst (get_priority_score sample_now sample_float sample_issue (Some decimal_llm)))
            = Finite t
        \<and> 0 \<le> a \<and> a \<le> 50 \<and> 0 \<le> t \<and> t \<le> 150 \<and> \<bar>t - (a + e + c)\<bar> \<le> 1 / 2 ^ 46)
   \<and> (\<exists>a e c. breakdown (fst (get_priority_score sample_now sample_float future_issue None))
             = \<lparr>age = Finite a, engagement = Finite e, context' = Finite c\<rparr> \<and> a < 0)"
proof -
  have b: "breakdown (fst (get_priority_score sample_now sample_float sample_issue
                             (Some decimal_llm)))
       = \<lparr>age = Finite 30, engagement = Finite 50,
          context' = Finite (3462142213541069 / 2 ^ 48)\<rparr>"
    by (simp add: gps_Some sample_age decimal_analysis) (simp add: sample_issue_def)
  have "total (fst (get_priority_score sample_now sample_float sample_issue (Some decimal_llm)))
       = pyfloat_add (Finite 80) (Finite (3462142213541069 / 2 ^ 48))"
    by (simp add: gps_Some sample_age decimal_analysis del: pyfloat_add.simps)
       (simp add: sample_issue_def)
  then have t: "total (fst (get_priority_score sample_now sample_float sample_issue
                              (Some decimal_llm)))
       = Finite (25980140350393548 / 2 ^ 48)"
    by (simp only: decimal_total)
  from priority_breakdown_bounds [of sample_now sample_float sample_issue "Some decimal_llm"]
    sample_instant
  have 1: "\<exists>a e c t. breakdown (fst (get_priority_score sample_now sample_float sample_issue
                                  (Some decimal_llm)))
             = \<lparr>age = Finite a, engagement = Finite e, context' = Finite c\<rparr>
        \<and> total (fst (get_priority_score sample_now sample_float sample_issue (Some decimal_llm)))
            = Finite t
        \<and> 0 \<le> a \<and> a \<le> 50 \<and> 0 \<le> t \<and> t \<le> 150 \<and> \<bar>t - (a + e + c)\<bar> \<le> 1 / 2 ^ 46"
    by blast
  from priority_breakdown_bounds [of sample_now sample_float future_issue None] future_instant
  have 2: "\<exists>a e c. breakdown (fst (get_priority_score sample_now sample_float future_issue None))
             = \<lparr>age = Finite a, engagement = Finite e, context' = Finite c\<rparr> \<and> a < 0"
    by blast
  from sample_instant future_instant b t 1 2 show ?thesis by blast
qed

text \<open>
  Claim C3.  Without an analyzer the context component is 0 and nothing is printed.
  With an analyzer the component is the result of \<open>analyze_contextual_priority\<close>, which
  lies in \<open>[0, 50]\<close>; when the call raises, when the response has no token, or when
  \<open>float\<close> rejects the first token, the result is 0 and one line reporting the failure
  goes to stderr; when \<open>float\<close> accepts the first token, the result is the parsed value
  clamped into \<open>[0, 50]\<close>: a value in the range is kept, a value below it or \<open>nan\<close>
  gives 0, a value above it gives 50.  The model of the function returns a value in
  every case: no exception leaves it.
\<close>

theorem contextual_score_degrades_to_zero:
  "context' (breakdown (fst (get_priority_score now fo i None))) = Finite 0
   \<and> snd (get_priority_score now fo i None) = []
   \<and> context' (breakdown (fst (get_priority_score now fo i (Some l))))
       = fst (analyze_contextual_priority fo l i)
   \<and> snd (get_priority_score now fo i (Some l)) = snd (analyze_contextual_priority fo l i)
   \<and> in_range 0 50 (fst (analyze_contextual_priority fo l i))
   \<and> (\<forall>e. l (title i) (body_preview i) = Inl e
         \<longrightarrow> analyze_contextual_priority fo l i = (Finite 0, [context_error_line i e]))
   \<and> (\<forall>r. l (title i) (body_preview i) = Inr r \<and> py_split (py_strip r) = []
         \<longrightarrow> analyze_contextual_priority fo l i
             = (Finite 0, [context_error_line i (Exn ''list index out of range'')]))
   \<and> (\<forall>r tok rest e. l (title i) (body_preview i) = Inr r \<and> py_split (py_strip r) = tok # rest
            \<and> fo tok = Inl e
         \<longrightarrow> analyze_contextual_priority fo l i = (Finite 0, [context_error_line i e]))
   \<and> (\<forall>r tok rest v. l (title i) (body_preview i) = Inr r \<and> py_split (py_strip r) = tok # rest
            \<and> fo tok = Inr v
         \<longrightarrow> analyze_contextual_priority fo l i = (clamp_score v, [])
             \<and> in_range 0 50 (clamp_score v))
   \<and> clamp_score (Finite x) = Finite (max 0 (min x 50))
   \<and> (0 \<le> x \<and> x \<le> 50 \<longrightarrow> clamp_score (Finite x) = Finite x)
   \<and> clamp_score PosInf = Finite 50
   \<and> clamp_score NegInf = Finite 0
   \<and> clamp_score NaN = Finite 0"
proof -
  have r: "in_range 0 50 (fst (analyze_contextual_priority fo l i))"
    using analyze_Finite [of fo l i] by (auto simp: in_range_def)
  have k: "0 \<le> x \<and> x \<le> 50 \<longrightarrow> clamp_score (Finite x) = Finite x"
    by (simp add: clamp_score_eq)
  show ?thesis
    by (intro conjI allI impI)
       (simp_all add: gps_None gps_Some r clamp_score_eq k,
        simp_all add: analyze_contextual_priority_def clamp_score_in_range)
qed

lemmas split_defs = py_split_def py_strip_def utf8_chars_def is_continuation_def is_space_def

lemma split_numeric: "py_split (py_strip '' 75 (critical)\<newline>'') = [''75'', ''(critical)'']"
  by (simp add: split_defs)

lemma split_wordy: "py_split (py_strip ''high priority'') = [''high'', ''priority'']"
  by (simp add: split_defs)

lemma split_blank: "py_split (py_strip ''  \<newline>'') = []"
  by (simp add: split_defs)

lemma split_nbsp:
  "py_split (py_strip (''12'' @ [CHR 0xC2, CHR 0xA0] @ ''apples'')) = [''12'', ''apples'']"
  by (simp add: split_defs)

lemma py_take_sample:
  "py_take 3 (''a'' @ [CHR 0xC3, CHR 0xA9] @ [CHR 0xE2, CHR 0x82, CHR 0xAC] @ ''bc'')
     = ''a'' @ [CHR 0xC3, CHR 0xA9] @ [CHR 0xE2, CHR 0x82, CHR 0xAC]"
  by (simp add: py_take_def utf8_chars_def is_continuation_def)

text \<open>
  Claim C3 at five analyzers: one that raises, one that answers with blanks, one that
  answers with words, one that answers 75, which is clamped to 50, and one that answers
  12 followed by a no-break space and a word, whose 12 is kept.
\<close>

theorem contextual_score_degrades_to_zero_witness:
  "failing_llm (title sample_issue) (body_preview sample_issue) = Inl (Exn ''Connection timed out'')
   \<and> analyze_contextual_priority sample_float failing_llm sample_issue
       = (Finite 0, [''Error analyzing contextual priority for issue #42: Connection timed out''])
   \<and> blank_llm (title sample_issue) (body_preview sample_issue) = Inr ''  \<newline>''
   \<and> py_split (py_strip ''  \<newline>'') = []
   \<and> analyze_contextual_priority sample_float blank_llm sample_issue
       = (Finite 0, [''Error analyzing contextual priority for issue #42: list index out of range''])
   \<and> wordy_llm (title sample_issue) (body_preview sample_issue) = Inr ''high priority''
   \<and> py_split (py_strip ''high priority'') = [''high'', ''priority'']
   \<and> sample_float ''high''
       = Inl (Exn (''could not convert string to float: '' @ [CHR 0x27] @ ''high'' @ [CHR 0x27]))
   \<and> analyze_contextual_priority sample_float wordy_llm sample_issue
       = (Finite 0, [''Error analyzing contextual priority for issue #42: could not convert string to float: ''
                     @ [CHR 0x27] @ ''high'' @ [CHR 0x27]])
   \<and> numeric_llm (title sample_issue) (body_preview sample_issue) = Inr '' 75 (critical)\<newline>''
   \<and> py_split (py_strip '' 75 (critical)\<newline>'') = [''75'', ''(critical)'']
   \<and> sample_float ''75'' = Inr (Finite 75)
   \<and> analyze_contextual_priority sample_float numeric_llm sample_issue = (Finite 50, [])
   \<and> nbsp_llm (title sample_issue) (body_preview sample_issue)
       = Inr (''12'' @ [CHR 0xC2, CHR 0xA0] @ ''apples'')
   \<and> py_split (py_strip (''12'' @ [CHR 0xC2, CHR 0xA0] @ ''apples'')) = [''12'', ''apples'']
   \<and> sample_float ''12'' = Inr (Finite 12)
   \<and> analyze_contextual_priority sample_float nbsp_llm sample_issue = (Finite 12, [])"
proof -
  have line: "\<And>e. context_error_line sample_issue e
                = ''Error analyzing contextual priority for issue #42: '' @ str_exn e"
    by (simp add: context_error_line_def sample_issue_def str_int_def str_nat.simps digit_char_def)
  have f: "failing_llm (title sample_issue) (body_preview sample_issue) = Inl (Exn ''Connection timed out'')"
    by (simp add: failing_llm_def)
  have b: "blank_llm (title sample_issue) (body_preview sample_issue) = Inr ''  \<newline>''"
    by (simp add: blank_llm_def)
  have w: "wordy_llm (title sample_issue) (body_preview sample_issue) = Inr ''high priority''"
    by (simp add: wordy_llm_def)
  have n: "numeric_llm (title sample_issue) (body_preview sample_issue) = Inr '' 75 (critical)\<newline>''"
    by (simp add: numeric_llm_def)
  have s: "nbsp_llm (title sample_issue) (body_preview sample_issue)
       = Inr (''12'' @ [CHR 0xC2, CHR 0xA0] @ ''apples'')"
    by (simp add: nbsp_llm_def)
  have pw: "sample_float ''high''
       = Inl (Exn (''could not convert string to float: '' @ [CHR 0x27] @ ''high'' @ [CHR 0x27]))"
    by (simp add: sample_float_def)
  have pn: "sample_float ''75'' = Inr (Finite 75)"
    by (simp add: sample_float_def)
  have ps: "sample_float ''12'' = Inr (Finite 12)"
    by (simp add: sample_float_def)
  note t = contextual_score_degrades_to_zero [of sample_now sample_float sample_issue]
  from t [of failing_llm] f
  have 1: "analyze_contextual_priority sample_float failing_llm sample_issue
       = (Finite 0, [''Error analyzing contextual priority for issue #42: Connection timed out''])"
    by (simp add: line)
  from t [of blank_llm] b split_blank
  have 2: "analyze_contextual_priority sample_float blank_llm sample_issue
       = (Finite 0, [''Error analyzing contextual priority for issue #42: list index out of range''])"
    by (simp add: line)
  from t [of wordy_llm] w split_wordy pw
  have 3: "analyze_contextual_priority sample_float wordy_llm sample_issue
       = (Finite 0, [''Error analyzing contextual priority for issue #42: could not convert string to float: ''
                     @ [CHR 0x27] @ ''high'' @ [CHR 0x27]])"
    by (simp add: line)
  from t [of numeric_llm 75] n split_numeric pn
  have 4: "analyze_contextual_priority sample_float numeric_llm sample_issue = (Finite 50, [])"
    by simp
  from t [of nbsp_llm 12] s split_nbsp ps
  have 5: "analyze_contextual_priority sample_float nbsp_llm sample_issue = (Finite 12, [])"
    by simp
  from f b w n s pw pn ps split_blank split_wordy split_numeric split_nbsp 1 2 3 4 5
  show ?thesis by simp
qed

text \<open>
  Claim C7.  Two issues that differ only in their labels get the same result from
  \<open>get_priority_score\<close> without an analyzer: the same total and the same breakdown.
\<close>

theorem labels_do_not_affect_score:
  "get_priority_score now fo (i\<lparr>labels := ls1\<rparr>) None
   = get_priority_score now fo (i\<lparr>labels := ls2\<rparr>) None"
  by (simp add: gps_None)

lemma foldl_append_concat:
  "foldl (\<lambda>r x. r @ f x) init xs = init @ concat (map f xs)"
  by (induction xs arbitrary: init) simp_all

lemma enumerate_Suc_nth:
  "enumerate (Suc 0) xs = map (\<lambda>k. (Suc k, xs ! k)) [0..<length xs]"
  by (rule nth_equalityI) (simp_all add: nth_enumerate_eq)

lemma format_issue_summary_concat:
  "format_issue_summary clock issues rec repo =
     issue_report_header (clock 0) (length issues) rec repo
     @ concat (map (\<lambda>k. issue_section (clock (Suc k)) (Suc k) (issues ! k)) [0..<length issues])"
proof -
  have "format_issue_summary clock issues rec repo =
     issue_report_header (clock 0) (length issues) rec repo
     @ concat (map (\<lambda>(idx, i). issue_section (clock idx) idx i) (enumerate 1 issues))"
    unfolding format_issue_summary_def
    using foldl_append_concat [of "\<lambda>(idx, i). issue_section (clock idx) idx i"]
    by (simp add: case_prod_unfold)
  then show ?thesis by (simp add: enumerate_Suc_nth comp_def)
qed

lemma digit_char_in: "digit_char d \<in> set ''0123456789''"
proof -
  have "d mod 10 < length ''0123456789''" by simp
  then show ?thesis unfolding digit_char_def by (rule nth_mem)
qed

lemma str_nat_chars: "set (str_nat n) \<subseteq> set ''0123456789''"
proof (induction n rule: str_nat.induct)
  case (1 n)
  show ?case
  proof (cases "n < 10")
    case True
    then show ?thesis using digit_char_in [of n] by (subst str_nat.simps) simp
  next
    case False
    with 1 digit_char_in [of "n mod 10"] show ?thesis by (subst str_nat.simps) simp
  qed
qed

lemma fmt_1f_chars: "set (fmt_1f v) \<subseteq> set ''0123456789-.infa''"
proof (cases v)
  case (Finite x)
  let ?t = "round_half_even (\<bar>x\<bar> * 10)"
  have sub: "set ''0123456789'' \<subseteq> set ''0123456789-.infa''" by simp
  have a: "set (str_nat (?t div 10)) \<subseteq> set ''0123456789-.infa''"
    using str_nat_chars [of "?t div 10"] sub by (rule subset_trans)
  have b: "digit_char (?t mod 10) \<in> set ''0123456789-.infa''"
    using digit_char_in [of "?t mod 10"] sub by (rule subsetD [rotated])
  have c: "set (if x < 0 then ''-'' else []) \<subseteq> set ''0123456789-.infa''"
    by (cases "x < 0") simp_all
  have d: "set ''.'' \<subseteq> set ''0123456789-.infa''" by simp
  have "fmt_1f v = (if x < 0 then ''-'' else []) @ str_nat (?t div 10) @ ''.'' @ [digit_char (?t mod 10)]"
    using Finite by (simp add: Let_def)
  then show ?thesis using a b c d by (simp only: set_append Un_subset_iff list.set insert_subset)
next
  case PosInf then show ?thesis by simp
next
  case NegInf then show ?thesis by simp
next
  case NaN then show ?thesis by simp
qed

lemma fmt_1f_no_C: "CHR ''C'' \<notin> set (fmt_1f v)"
proof
  assume "CHR ''C'' \<in> set (fmt_1f v)"
  then have "CHR ''C'' \<in> set ''0123456789-.infa''" using fmt_1f_chars [of v] by (rule subsetD [rotated])
  then show False by simp
qed

lemma sublist_has_char: "sublist xs ys \<Longrightarrow> c \<in> set xs \<Longrightarrow> c \<in> set ys"
  using set_mono_sublist by blast

lemma priority_display_present:
  "entry_breakdown i \<noteq> [] \<Longrightarrow>
   priority_display i =
     fmt_1f (d_priority_score i) @ '' ('' @ fmt_1f (breakdown_get (entry_breakdown i) ''age'')
     @ '' Age, '' @ fmt_1f (breakdown_get (entry_breakdown i) ''engagement'') @ '' Engagement''
     @ (if pyfloat_less (Finite 0) (breakdown_get (entry_breakdown i) ''context'')
        then '', '' @ fmt_1f (breakdown_get (entry_breakdown i) ''context'') @ '' Context analysis''
        else [])
     @ '')''"
  by (simp add: priority_display_def Let_def)

lemma priority_display_absent:
  "entry_breakdown i = [] \<Longrightarrow> priority_display i = fmt_1f (d_priority_score i)"
  by (simp add: priority_display_def Let_def)

lemma context_term_iff:
  "sublist ''Context analysis'' (priority_display i) \<longleftrightarrow>
     entry_breakdown i \<noteq> []
     \<and> pyfloat_less (Finite 0) (breakdown_get (entry_breakdown i) ''context'')"
proof (cases "entry_breakdown i = []")
  case True
  have "\<not> sublist ''Context analysis'' (fmt_1f (d_priority_score i))"
    using sublist_has_char [of "''Context analysis''" "fmt_1f (d_priority_score i)" "CHR ''C''"]
      fmt_1f_no_C [of "d_priority_score i"] by auto
  with True show ?thesis by (simp add: priority_display_absent)
next
  case False
  note d = priority_display_present [OF False]
  show ?thesis
  proof (cases "pyfloat_less (Finite 0) (breakdown_get (entry_breakdown i) ''context'')")
    case True
    have "priority_display i =
        (fmt_1f (d_priority_score i) @ '' ('' @ fmt_1f (breakdown_get (entry_breakdown i) ''age'')
         @ '' Age, '' @ fmt_1f (breakdown_get (entry_breakdown i) ''engagement'') @ '' Engagement''
         @ '', '' @ fmt_1f (breakdown_get (entry_breakdown i) ''context'') @ '' '')
        @ ''Context analysis'' @ '')''"
      using True by (simp add: d)
    then have "sublist ''Context analysis'' (priority_display i)"
      unfolding sublist_def by blast
    with True False show ?thesis by simp
  next
    case F: False
    have "CHR ''C'' \<notin> set (priority_display i)"
      using F by (simp add: d fmt_1f_no_C)
    then have "\<not> sublist ''Context analysis'' (priority_display i)"
      using sublist_has_char [of "''Context analysis''" "priority_display i" "CHR ''C''"] by auto
    with F show ?thesis by simp
  qed
qed

lemma concat_map_nth_sublist: "k < n \<Longrightarrow> sublist (g k) (concat (map g [0..<n]))"
proof -
  assume "k < n"
  then have "[0..<n] = [0..<k] @ k # [Suc k..<n]"
    by (metis less_imp_le_nat upt_add_eq_append upt_conv_Cons le_add_diff_inverse zero_le
        add_0)
  then have "concat (map g [0..<n])
      = concat (map g [0..<k]) @ g k @ concat (map g [Suc k..<n])"
    by simp
  then show ?thesis unfolding sublist_def by blast
qed

lemma issue_section_eq:
  "issue_section now idx i =
     ''### '' @ str_nat idx @ ''. ['' @ d_title i @ '']('' @ d_url i @ '')\<newline>\<newline>**Issue #** ''
     @ str_int (d_number i) @ ''  \<newline>**Priority Score:** '' @ priority_display i
     @ ''  \<newline>**Labels:** '' @ (if d_labels i \<noteq> [] then d_labels i else ''none'')
     @ ''  \<newline>**Age:** '' @ str_int (calculate_issue_age now (d_created_at i))
     @ '' days  \<newline>**Comments:** '' @ str_nat (d_comments i) @ ''  \<newline>\<newline>**Summary:** ''
     @ d_summary i @ reading_section i @ ''\<newline>\<newline>---\<newline>\<newline>''"
  by (simp add: issue_section_def Let_def)

lemma section_head_sublist:
  assumes "k < length issues"
  shows "sublist (''### '' @ str_nat (Suc k) @ ''. ['' @ d_title (issues ! k) @ ''](''
                  @ d_url (issues ! k) @ '')\<newline>\<newline>**Issue #** '' @ str_int (d_number (issues ! k))
                  @ ''  \<newline>**Priority Score:** '' @ priority_display (issues ! k)
                  @ ''  \<newline>**Labels:** '')
                 (format_issue_summary clock issues rec repo)"
proof -
  let ?g = "\<lambda>k. issue_section (clock (Suc k)) (Suc k) (issues ! k)"
  let ?h = "''### '' @ str_nat (Suc k) @ ''. ['' @ d_title (issues ! k) @ ''](''
                  @ d_url (issues ! k) @ '')\<newline>\<newline>**Issue #** '' @ str_int (d_number (issues ! k))
                  @ ''  \<newline>**Priority Score:** '' @ priority_display (issues ! k)
                  @ ''  \<newline>**Labels:** ''"
  have "\<exists>r. ?g k = ?h @ r" by (simp add: issue_section_eq)
  then obtain r where r: "?g k = ?h @ r" ..
  from assms have "sublist (?g k) (concat (map ?g [0..<length issues]))"
    by (rule concat_map_nth_sublist)
  then obtain p q where "concat (map ?g [0..<length issues]) = p @ ?g k @ q"
    unfolding sublist_def by blast
  then have "format_issue_summary clock issues rec repo
      = (issue_report_header (clock 0) (length issues) rec repo @ p) @ ?h @ (r @ q)"
    by (simp only: format_issue_summary_concat r append_assoc)
  then show ?thesis unfolding sublist_def by blast
qed

text \<open>
  Claim C8.  The report is the header followed by one section per issue, the section at
  position \<open>k\<close> being that of the \<open>k\<close>-th issue of the input with the running index
  \<open>k + 1\<close>: the input order is kept.  A section is the heading with the index, the
  title and the link, then the number, the priority display, the labels, the age, the
  comments, the summary and the reading materials of its issue; so the report contains,
  for every position \<open>k\<close>, the heading numbered \<open>k + 1\<close> followed by the priority display
  of the \<open>k\<close>-th issue.  In the priority display the words \<open>Context analysis\<close> occur if
  and only if a breakdown is present and its context value is greater than 0; when a
  breakdown is present the age and the engagement term are shown, and when none is
  present only the score is shown.
\<close>

theorem format_issue_summary_order_and_breakdown:
  "format_issue_summary clock issues rec repo =
     issue_report_header (clock 0) (length issues) rec repo
     @ concat (map (\<lambda>k. issue_section (clock (Suc k)) (Suc k) (issues ! k)) [0..<length issues])
   \<and> issue_section now idx i =
        ''### '' @ str_nat idx @ ''. ['' @ d_title i @ '']('' @ d_url i @ '')\<newline>\<newline>**Issue #** ''
        @ str_int (d_number i) @ ''  \<newline>**Priority Score:** '' @ priority_display i
        @ ''  \<newline>**Labels:** '' @ (if d_labels i \<noteq> [] then d_labels i else ''none'')
        @ ''  \<newline>**Age:** '' @ str_int (calculate_issue_age now (d_created_at i))
        @ '' days  \<newline>**Comments:** '' @ str_nat (d_comments i) @ ''  \<newline>\<newline>**Summary:** ''
        @ d_summary i @ reading_section i @ ''\<newline>\<newline>---\<newline>\<newline>''
   \<and> (\<forall>k<length issues.
        sublist (''### '' @ str_nat (Suc k) @ ''. ['' @ d_title (issues ! k) @ ''](''
                 @ d_url (issues ! k) @ '')\<newline>\<newline>**Issue #** '' @ str_int (d_number (issues ! k))
                 @ ''  \<newline>**Priority Score:** '' @ priority_display (issues ! k)
                 @ ''  \<newline>**Labels:** '')
                (format_issue_summary clock issues rec repo))
   \<and> (sublist ''Context analysis'' (priority_display i) \<longleftrightarrow>
        entry_breakdown i \<noteq> []
        \<and> pyfloat_less (Finite 0) (breakdown_get (entry_breakdown i) ''context''))
   \<and> (entry_breakdown i \<noteq> [] \<longrightarrow>
        priority_display i =
          fmt_1f (d_priority_score i) @ '' ('' @ fmt_1f (breakdown_get (entry_breakdown i) ''age'')
          @ '' Age, '' @ fmt_1f (breakdown_get (entry_breakdown i) ''engagement'') @ '' Engagement''
          @ (if pyfloat_less (Finite 0) (breakdown_get (entry_breakdown i) ''context'')
             then '', '' @ fmt_1f (breakdown_get (entry_breakdown i) ''context'') @ '' Context analysis''
             else [])
          @ '')'')
   \<and> (entry_breakdown i = [] \<longrightarrow> priority_display i = fmt_1f (d_priority_score i))"
  using format_issue_summary_concat [of clock issues rec repo] context_term_iff [of i]
    priority_display_present [of i] priority_display_absent [of i]
    issue_section_eq [of now idx i] section_head_sublist [of _ issues clock rec repo]
  by blast

lemma fmt_samples:
  "fmt_1f (Finite 80) = ''80.0''" "fmt_1f (Finite 30) = ''30.0''" "fmt_1f (Finite 50) = ''50.0''"
  "fmt_1f (Finite (185 / 2)) = ''92.5''" "fmt_1f (Finite (25 / 2)) = ''12.5''"
  by (simp_all add: round_half_even_def Let_def str_nat.simps digit_char_def)

text \<open>
  Claim C8 at the report of two entries, the first with a context value of 0 and the
  second with a context value of 12.5, and at an entry without breakdown: the report
  is the header, the section of the first entry numbered 1 and the section of the
  second numbered 2, and it contains the two headings with their priority displays.
\<close>

theorem format_issue_summary_order_and_breakdown_witness:
  "format_issue_summary (\<lambda>_. sample_now) [sample_entry, context_entry] ''Fix #42.'' ''o/r''
     = issue_report_header sample_now 2 ''Fix #42.'' ''o/r''
       @ issue_section sample_now 1 sample_entry @ issue_section sample_now 2 context_entry
   \<and> issue_section sample_now 2 context_entry
       = ''### 2. [Crash on start](https://github.com/o/r/issues/42)\<newline>\<newline>**Issue #** 42  \<newline>**Priority Score:** 92.5 (30.0 Age, 50.0 Engagement, 12.5 Context analysis)  \<newline>**Labels:** bug, urgent  \<newline>**Age:** 60 days  \<newline>**Comments:** 20  \<newline>\<newline>**Summary:** The program stops when it starts.\<newline>\<newline>---\<newline>\<newline>''
   \<and> sublist ''### 1. [Crash on start](https://github.com/o/r/issues/42)\<newline>\<newline>**Issue #** 42  \<newline>**Priority Score:** 80.0 (30.0 Age, 50.0 Engagement)  \<newline>**Labels:** ''
        (format_issue_summary (\<lambda>_. sample_now) [sample_entry, context_entry] ''Fix #42.'' ''o/r'')
   \<and> sublist ''### 2. [Crash on start](https://github.com/o/r/issues/42)\<newline>\<newline>**Issue #** 42  \<newline>**Priority Score:** 92.5 (30.0 Age, 50.0 Engagement, 12.5 Context analysis)  \<newline>**Labels:** ''
        (format_issue_summary (\<lambda>_. sample_now) [sample_entry, context_entry] ''Fix #42.'' ''o/r'')
   \<and> entry_breakdown sample_entry \<noteq> []
   \<and> \<not> pyfloat_less (Finite 0) (breakdown_get (entry_breakdown sample_entry) ''context'')
   \<and> priority_display sample_entry = ''80.0 (30.0 Age, 50.0 Engagement)''
   \<and> \<not> sublist ''Context analysis'' (priority_display sample_entry)
   \<and> entry_breakdown context_entry \<noteq> []
   \<and> pyfloat_less (Finite 0) (breakdown_get (entry_breakdown context_entry) ''context'')
   \<and> priority_display context_entry = ''92.5 (30.0 Age, 50.0 Engagement, 12.5 Context analysis)''
   \<and> sublist ''Context analysis'' (priority_display context_entry)
   \<and> entry_breakdown (sample_entry\<lparr>d_priority_breakdown := None\<rparr>) = []
   \<and> priority_display (sample_entry\<lparr>d_priority_breakdown := None\<rparr>) = ''80.0''"
proof -
  let ?r = "format_issue_summary (\<lambda>_. sample_now) [sample_entry, context_entry] ''Fix #42.'' ''o/r''"
  have s: "entry_breakdown sample_entry
             = [(''age'', Finite 30), (''engagement'', Finite 50), (''context'', Finite 0)]"
    by (simp add: entry_breakdown_def sample_entry_def)
  have c: "entry_breakdown context_entry
             = [(''age'', Finite 30), (''engagement'', Finite 50), (''context'', Finite (25 / 2))]"
    by (simp add: entry_breakdown_def context_entry_def sample_entry_def)
  have n: "entry_breakdown (sample_entry\<lparr>d_priority_breakdown := None\<rparr>) = []"
    by (simp add: entry_breakdown_def)
  have sc: "d_priority_score sample_entry = Finite 80"
    "d_priority_score context_entry = Finite (185 / 2)"
    by (simp_all add: sample_entry_def context_entry_def)
  have f: "d_title sample_entry = ''Crash on start''"
    "d_url sample_entry = ''https://github.com/o/r/issues/42''"
    "d_number sample_entry = 42" "d_labels sample_entry = ''bug, urgent''"
    "d_comments sample_entry = 20" "d_summary sample_entry = ''The program stops when it starts.''"
    "d_created_at sample_entry = created_at sample_issue"
    "d_title context_entry = ''Crash on start''"
    "d_url context_entry = ''https://github.com/o/r/issues/42''"
    "d_number context_entry = 42" "d_labels context_entry = ''bug, urgent''"
    "d_comments context_entry = 20" "d_summary context_entry = ''The program stops when it starts.''"
    "d_created_at context_entry = created_at sample_issue"
    "reading_section context_entry = []"
    by (simp_all add: sample_entry_def context_entry_def reading_section_def)
  have d: "str_nat (Suc 0) = ''1''" "str_nat 2 = ''2''" "str_nat (Suc (Suc 0)) = ''2''"
    "str_int 42 = ''42''" "str_nat 20 = ''20''" "str_int 60 = ''60''"
    by (simp_all add: str_int_def str_nat.simps digit_char_def)
  note t1 = format_issue_summary_order_and_breakdown
    [where clock = "\<lambda>_. sample_now" and issues = "[sample_entry, context_entry]"
       and rec = "''Fix #42.''" and repo = "''o/r''" and i = sample_entry
       and now = sample_now and idx = 1]
  note t2 = format_issue_summary_order_and_breakdown
    [where clock = "\<lambda>_. sample_now" and issues = "[sample_entry, context_entry]"
       and rec = "''Fix #42.''" and repo = "''o/r''" and i = context_entry
       and now = sample_now and idx = 2]
  note t3 = format_issue_summary_order_and_breakdown
    [where clock = "\<lambda>_. sample_now" and issues = "[]" and rec = "[]" and repo = "[]"
       and i = "sample_entry\<lparr>d_priority_breakdown := None\<rparr>" and now = sample_now and idx = 1]
  have 1: "\<not> pyfloat_less (Finite 0) (breakdown_get (entry_breakdown sample_entry) ''context'')"
    by (simp add: s breakdown_get_def)
  have 2: "pyfloat_less (Finite 0) (breakdown_get (entry_breakdown context_entry) ''context'')"
    by (simp add: c breakdown_get_def)
  from t1 have 3: "priority_display sample_entry = ''80.0 (30.0 Age, 50.0 Engagement)''"
    by (simp add: s sc breakdown_get_def fmt_samples del: fmt_1f.simps)
  from t1 1 have 4: "\<not> sublist ''Context analysis'' (priority_display sample_entry)"
    by blast
  from t2 have 5: "priority_display context_entry
      = ''92.5 (30.0 Age, 50.0 Engagement, 12.5 Context analysis)''"
    by (simp add: c sc breakdown_get_def fmt_samples del: fmt_1f.simps)
  from t2 2 have 6: "sublist ''Context analysis'' (priority_display context_entry)"
    using c by auto
  from t3 n have 7: "priority_display (sample_entry\<lparr>d_priority_breakdown := None\<rparr>) = ''80.0''"
    by (simp add: sc fmt_samples del: fmt_1f.simps)
  from t1 [THEN conjunct1]
  have 8: "?r = issue_report_header sample_now 2 ''Fix #42.'' ''o/r''
       @ issue_section sample_now 1 sample_entry @ issue_section sample_now 2 context_entry"
    by (simp add: upt_rec [of 0] upt_rec [of "Suc 0"] numeral_2_eq_2)
  from t2 [THEN conjunct2, THEN conjunct1]
  have 9: "issue_section sample_now 2 context_entry
       = ''### 2. [Crash on start](https://github.com/o/r/issues/42)\<newline>\<newline>**Issue #** 42  \<newline>**Priority Score:** 92.5 (30.0 Age, 50.0 Engagement, 12.5 Context analysis)  \<newline>**Labels:** bug, urgent  \<newline>**Age:** 60 days  \<newline>**Comments:** 20  \<newline>\<newline>**Summary:** The program stops when it starts.\<newline>\<newline>---\<newline>\<newline>''"
    by (simp add: f d 5 sample_age)
  from t1 [THEN conjunct2, THEN conjunct2, THEN conjunct1, rule_format, of 0]
  have 10: "sublist ''### 1. [Crash on start](https://github.com/o/r/issues/42)\<newline>\<newline>**Issue #** 42  \<newline>**Priority Score:** 80.0 (30.0 Age, 50.0 Engagement)  \<newline>**Labels:** '' ?r"
    by (simp add: f d 3)
  from t1 [THEN conjunct2, THEN conjunct2, THEN conjunct1, rule_format, of 1]
  have 11: "sublist ''### 2. [Crash on start](https://github.com/o/r/issues/42)\<newline>\<newline>**Issue #** 42  \<newline>**Priority Score:** 92.5 (30.0 Age, 50.0 Engagement, 12.5 Context analysis)  \<newline>**Labels:** '' ?r"
    by (simp add: f d 5)
  show ?thesis
    by (intro conjI) (fact 8 9 10 11 1 2 3 4 5 6 7 | simp add: s c n)+
qed

text \<open>
  Claim C9.  For an empty list the report is the header alone, whatever the
  recommendation: it ends with the heading of the issue list, no section follows, and
  it contains \<open>Total Open Issues:** 0\<close>.
\<close>

theorem format_issue_summary_empty:
  "format_issue_summary clock [] rec ''o/r'' =
     ''# Issue Summary Report\<newline>\<newline>**Repository:** o/r  \<newline>**Generated:** ''
     @ strftime_utc (clock 0) @ ''  \<newline>**Total Open Issues:** 0\<newline>\<newline>## ''
     @ mark_recommendation @ '' Priority Recommendation\<newline>\<newline>'' @ rec
     @ ''\<newline>\<newline>## '' @ mark_issues @ '' Prioritized Issues\<newline>\<newline>''
   \<and> format_issue_summary clock [] rec ''o/r'' = issue_report_header (clock 0) 0 rec ''o/r''
   \<and> sublist ''Total Open Issues:** 0'' (format_issue_summary clock [] rec ''o/r'')"
proof -
  have z: "str_nat 0 = ''0''" by (simp add: str_nat.simps digit_char_def)
  have h: "format_issue_summary clock [] rec ''o/r'' = issue_report_header (clock 0) 0 rec ''o/r''"
    by (simp add: format_issue_summary_def)
  have e: "issue_report_header (clock 0) 0 rec ''o/r'' =
     ''# Issue Summary Report\<newline>\<newline>**Repository:** o/r  \<newline>**Generated:** ''
     @ strftime_utc (clock 0) @ ''  \<newline>**Total Open Issues:** 0\<newline>\<newline>## ''
     @ mark_recommendation @ '' Priority Recommendation\<newline>\<newline>'' @ rec
     @ ''\<newline>\<newline>## '' @ mark_issues @ '' Prioritized Issues\<newline>\<newline>''"
    by (simp add: issue_report_header_def z)
  have "issue_report_header (clock 0) 0 rec ''o/r'' =
     (''# Issue Summary Report\<newline>\<newline>**Repository:** o/r  \<newline>**Generated:** ''
      @ strftime_utc (clock 0) @ ''  \<newline>**'')
     @ ''Total Open Issues:** 0''
     @ (''\<newline>\<newline>## '' @ mark_recommendation @ '' Priority Recommendation\<newline>\<newline>'' @ rec
        @ ''\<newline>\<newline>## '' @ mark_issues @ '' Prioritized Issues\<newline>\<newline>'')"
    by (simp add: e)
  then have "sublist ''Total Open Issues:** 0'' (issue_report_header (clock 0) 0 rec ''o/r'')"
    unfolding sublist_def by blast
  with h e show ?thesis by simp
qed

lemma later_age: "calculate_issue_age later_now (created_at sample_issue) = 62"
  by (simp add: date_defs sample_now_def later_now_def sample_issue_def)

lemma strftime_sample: "strftime_utc sample_now = ''2024-03-01 12:00:00 UTC''"
  by (simp add: strftime_utc_def zero_pad_def sample_now_def str_int_def str_nat.simps
      digit_char_def Let_def)

lemma strftime_later: "strftime_utc later_now = ''2024-03-03 12:00:00 UTC''"
  by (simp add: strftime_utc_def zero_pad_def sample_now_def later_now_def str_int_def
      str_nat.simps digit_char_def Let_def)

text \<open>
  Claim C6 as stated fails: both functions read the clock.  The same issue scored at
  two clock readings two days apart gets two different results, and the same arguments
  formatted at these two readings give two different reports.
\<close>

theorem purity_counterexample:
  "get_priority_score sample_now sample_float sample_issue None
     \<noteq> get_priority_score later_now sample_float sample_issue None
   \<and> format_issue_summary (\<lambda>_. sample_now) [sample_entry] ''Start with #42.'' ''o/r''
     \<noteq> format_issue_summary (\<lambda>_. later_now) [sample_entry] ''Start with #42.'' ''o/r''"
proof
  show "get_priority_score sample_now sample_float sample_issue None
     \<noteq> get_priority_score later_now sample_float sample_issue None"
    by (simp add: gps_None sample_age later_age)
  show "format_issue_summary (\<lambda>_. sample_now) [sample_entry] ''Start with #42.'' ''o/r''
     \<noteq> format_issue_summary (\<lambda>_. later_now) [sample_entry] ''Start with #42.'' ''o/r''"
    by (simp add: format_issue_summary_concat issue_report_header_def strftime_sample
        strftime_later)
qed

lemma issue_section_age:
  "calculate_issue_age now1 (d_created_at i) = calculate_issue_age now2 (d_created_at i)
   \<Longrightarrow> issue_section now1 idx i = issue_section now2 idx i"
  by (simp add: issue_section_def)

text \<open>
  Claim C6, amended.  The results depend on the arguments and on the clock readings
  only: \<open>get_priority_score\<close> without analyzer returns the same result at two readings
  that give the issue the same age in whole days, and \<open>format_issue_summary\<close> returns
  the same report for two sequences of readings when the readings of the header render
  to the same timestamp and the readings of each iteration give its issue the same age
  in whole days.
\<close>

theorem purity_given_clock:
  "(calculate_issue_age now1 (created_at i) = calculate_issue_age now2 (created_at i)
      \<longrightarrow> get_priority_score now1 fo i None = get_priority_score now2 fo i None)
   \<and> (strftime_utc (clock1 0) = strftime_utc (clock2 0)
        \<and> (\<forall>k < length issues.
              calculate_issue_age (clock1 (Suc k)) (d_created_at (issues ! k))
              = calculate_issue_age (clock2 (Suc k)) (d_created_at (issues ! k)))
      \<longrightarrow> format_issue_summary clock1 issues rec repo
          = format_issue_summary clock2 issues rec repo)"
proof (intro conjI impI)
  assume "calculate_issue_age now1 (created_at i) = calculate_issue_age now2 (created_at i)"
  then show "get_priority_score now1 fo i None = get_priority_score now2 fo i None"
    by (simp add: gps_None)
next
  assume a: "strftime_utc (clock1 0) = strftime_utc (clock2 0)
        \<and> (\<forall>k < length issues.
              calculate_issue_age (clock1 (Suc k)) (d_created_at (issues ! k))
              = calculate_issue_age (clock2 (Suc k)) (d_created_at (issues ! k)))"
  then have h: "issue_report_header (clock1 0) (length issues) rec repo
      = issue_report_header (clock2 0) (length issues) rec repo"
    by (simp add: issue_report_header_def)
  have "map (\<lambda>k. issue_section (clock1 (Suc k)) (Suc k) (issues ! k)) [0..<length issues]
      = map (\<lambda>k. issue_section (clock2 (Suc k)) (Suc k) (issues ! k)) [0..<length issues]"
    using a by (intro map_cong refl issue_section_age) simp
  with h show "format_issue_summary clock1 issues rec repo
      = format_issue_summary clock2 issues rec repo"
    by (simp only: format_issue_summary_concat)
qed

lemma micro_later_age: "calculate_issue_age micro_later_now (created_at sample_issue) = 60"
  by (simp add: date_defs sample_now_def micro_later_now_def sample_issue_def)

text \<open>
  The amended claim C6 at two clock readings five microseconds apart, for an issue that
  is 60 days old at both.
\<close>

theorem purity_given_clock_witness:
  "sample_now \<noteq> micro_later_now
   \<and> calculate_issue_age sample_now (created_at sample_issue)
       = calculate_issue_age micro_later_now (created_at sample_issue)
   \<and> get_priority_score sample_now sample_float sample_issue None
       = get_priority_score micro_later_now sample_float sample_issue None
   \<and> strftime_utc sample_now = strftime_utc micro_later_now
   \<and> calculate_issue_age sample_now (d_created_at sample_entry)
       = calculate_issue_age micro_later_now (d_created_at sample_entry)
   \<and> format_issue_summary (\<lambda>_. sample_now) [sample_entry] ''Start with #42.'' ''o/r''
       = format_issue_summary (\<lambda>_. micro_later_now) [sample_entry] ''Start with #42.'' ''o/r''"
proof -
  have d: "sample_now \<noteq> micro_later_now"
    by (simp add: sample_now_def micro_later_now_def)
  have a: "calculate_issue_age sample_now (created_at sample_issue)
       = calculate_issue_age micro_later_now (created_at sample_issue)"
    by (simp add: sample_age micro_later_age)
  have s: "strftime_utc sample_now = strftime_utc micro_later_now"
    by (simp add: strftime_utc_def micro_later_now_def)
  have e: "calculate_issue_age sample_now (d_created_at sample_entry)
       = calculate_issue_age micro_later_now (d_created_at sample_entry)"
    using a by (simp add: sample_entry_def)
  from purity_given_clock [of sample_now sample_issue micro_later_now sample_float
      "\<lambda>_. sample_now" "\<lambda>_. micro_later_now" "[sample_entry]" "''Start with #42.''" "''o/r''"]
    d a s e
  show ?thesis by simp
qed

lemma resolve_status_spec: "resolve_status fvs = spec_status fvs"
proof (induction fvs)
  case Nil
  show ?case by (simp add: spec_status_def)
next
  case (Cons node fvs)
  show ?case
  proof (cases node)
    case None
    with Cons show ?thesis by (simp add: spec_status_def is_status_field_def)
  next
    case (Some fv)
    with Cons show ?thesis
      by (cases "fv_field fv")
         (simp_all add: spec_status_def is_status_field_def selected_name_def Let_def)
  qed
qed

lemma initial_columns_names: "initial_columns = map (\<lambda>k. (k, [])) column_names"
  by (simp add: initial_columns_def column_names_def)

lemma column_append_map:
  "column_append (map (\<lambda>k. (k, f k)) names) s v
     = map (\<lambda>k. (k, f k @ (if k = s then [v] else []))) names"
  by (simp add: column_append_def)

lemma bucket_item_step:
  "bucket_item (map (\<lambda>k. (k, f k)) names) item =
     map (\<lambda>k. (k, f k @ (case spec_column_entry k item of None \<Rightarrow> [] | Some d \<Rightarrow> [d]))) names"
proof (cases "content item")
  case None
  then show ?thesis by (simp add: bucket_item_def spec_column_entry_def)
next
  case (Some c)
  show ?thesis
  proof (cases "c_number c")
    case None
    with Some show ?thesis by (simp add: bucket_item_def spec_column_entry_def)
  next
    case n: (Some n)
    show ?thesis
    proof (cases "spec_status (fieldValues item)")
      case Null
      with Some n show ?thesis
        by (simp add: bucket_item_def spec_column_entry_def resolve_status_spec)
    next
      case (Str s)
      have e: "\<And>k. (case spec_column_entry k item of None \<Rightarrow> [] | Some d \<Rightarrow> [d])
                 = (if k = s then [make_issue_data n c] else [])"
        using Some n Str by (auto simp: spec_column_entry_def)
      show ?thesis
      proof (cases "s \<in> set names")
        case True
        with Some n Str show ?thesis
          by (simp add: bucket_item_def resolve_status_spec e column_append_map comp_def)
      next
        case False
        then have "map (\<lambda>k. (k, f k @ (if k = s then [make_issue_data n c] else []))) names
                 = map (\<lambda>k. (k, f k)) names"
          by (intro map_cong refl) auto
        with Some n Str False show ?thesis
          by (simp add: bucket_item_def resolve_status_spec e comp_def)
      qed
    qed
  qed
qed

lemma map_filter_Cons_case:
  "List.map_filter g (x # xs) = (case g x of None \<Rightarrow> [] | Some d \<Rightarrow> [d]) @ List.map_filter g xs"
  by (simp add: List.map_filter_simps split: option.splits)

lemma foldl_bucket_item:
  "foldl bucket_item (map (\<lambda>k. (k, f k)) names) items
     = map (\<lambda>k. (k, f k @ List.map_filter (spec_column_entry k) items)) names"
proof (induction items arbitrary: f)
  case Nil
  show ?case by (simp add: List.map_filter_simps)
next
  case (Cons item items)
  show ?case
    by (simp only: foldl_Cons bucket_item_step Cons.IH map_filter_Cons_case append_assoc)
qed

lemma bucket_items_spec:
  "bucket_items items = map (\<lambda>k. (k, List.map_filter (spec_column_entry k) items)) column_names"
  using foldl_bucket_item [of "\<lambda>k. []" column_names items]
  by (simp add: bucket_items_def initial_columns_names)

lemma total_issues_map:
  "total_issues (map (\<lambda>k. (k, g k)) names) = sum_list (map (\<lambda>k. length (g k)) names)"
  by (simp add: total_issues_def comp_def)

lemma placed_count:
  "sum_list (map (\<lambda>k. length (case spec_column_entry k item of None \<Rightarrow> [] | Some d \<Rightarrow> [d]))
             column_names)
     = (if spec_placed item then 1 else 0)"
proof (cases "content item")
  case None
  then show ?thesis by (simp add: spec_column_entry_def spec_placed_def column_names_def)
next
  case (Some c)
  show ?thesis
  proof (cases "c_number c")
    case None
    with Some show ?thesis by (simp add: spec_column_entry_def spec_placed_def column_names_def)
  next
    case n: (Some n)
    show ?thesis
    proof (cases "spec_status (fieldValues item)")
      case Null
      with Some n show ?thesis
        by (simp add: spec_column_entry_def spec_placed_def column_names_def)
    next
      case (Str s)
      with Some n show ?thesis
        by (simp add: spec_column_entry_def spec_placed_def column_names_def)
    qed
  qed
qed

lemma total_issues_spec: "total_issues (bucket_items items) = length (filter spec_placed items)"
proof -
  have "sum_list (map (\<lambda>k. length (List.map_filter (spec_column_entry k) items)) column_names)
          = length (filter spec_placed items)"
  proof (induction items)
    case Nil
    show ?case by (simp add: List.map_filter_simps)
  next
    case (Cons item items)
    have "sum_list (map (\<lambda>k. length (List.map_filter (spec_column_entry k) (item # items)))
                     column_names)
        = sum_list (map (\<lambda>k. length (case spec_column_entry k item of None \<Rightarrow> []
                                         | Some d \<Rightarrow> [d])) column_names)
          + sum_list (map (\<lambda>k. length (List.map_filter (spec_column_entry k) items))
                       column_names)"
      by (simp only: map_filter_Cons_case length_append sum_list_addf)
    then show ?case by (simp add: placed_count Cons.IH)
  qed
  then show ?thesis by (simp add: bucket_items_spec total_issues_map)
qed

lemma get_project_items_fetched:
  "fetch_all_items query project_id None [] = Some (Inr items)
   \<Longrightarrow> get_project_items query project_id board_name = Some (Inr (bucket_items items))"
  by (simp add: get_project_items_def)

text \<open>
  Claim C4.  The status the bucketer resolves is the one of the specification.  The
  mapping has the five columns, and the column \<open>k\<close> holds, in arrival order, the records
  of the items that have a content with a number and whose status is \<open>k\<close>; an item
  without content, without number, or with another status is in no column.  The total
  counts the items that are placed.  When the pages are drained into \<open>items\<close>,
  \<open>get_project_items\<close> returns this mapping.
\<close>

theorem bucket_items_characterisation:
  "resolve_status fvs = spec_status fvs
   \<and> bucket_items items =
       map (\<lambda>k. (k, List.map_filter (spec_column_entry k) items))
         [''Backlog'', ''Ready'', ''In progress'', ''In review'', ''Done'']
   \<and> total_issues (bucket_items items) = length (filter spec_placed items)
   \<and> (fetch_all_items query project_id None [] = Some (Inr items)
        \<longrightarrow> get_project_items query project_id board_name = Some (Inr (bucket_items items)))"
  using resolve_status_spec [of fvs] bucket_items_spec [of items] total_issues_spec [of items]
    get_project_items_fetched [of query project_id items board_name]
  by (simp add: column_names_def)

lemma fetch_sample:
  "fetch_all_items sample_api ''PVT_1'' None []
     = Some (Inr [progress_item, draft_item, pull_request_item, archived_item, plain_item,
                  done_item])"
  apply (subst fetch_all_items.simps)
  apply (simp add: sample_api_def)
  apply (subst fetch_all_items.simps)
  apply (simp add: sample_api_def)
  done

lemma sample_statuses:
  "spec_status (fieldValues progress_item) = Str ''In progress''"
  "spec_status (fieldValues archived_item) = Str ''Archived''"
  "spec_status (fieldValues plain_item) = Str ''Backlog''"
  "spec_status (fieldValues done_item) = Str ''Done''"
  by (simp_all add: spec_status_def is_status_field_def selected_name_def status_value_def
      progress_item_def archived_item_def plain_item_def done_item_def py_lower_def
      lower_char_def)

lemma sample_contents:
  "content progress_item = Some (sample_content 1 ''Fix bug'')"
  "content draft_item = None"
  "content pull_request_item = Some ((sample_content 2 ''A pull request'')\<lparr>c_number := None\<rparr>)"
  "content archived_item = Some (sample_content 7 ''Old idea'')"
  "content plain_item = Some (sample_content 9 ''New idea'')"
  "content done_item = Some (sample_content 3 ''Update docs'')"
  "c_number (sample_content n t) = Some n"
  by (simp_all add: progress_item_def draft_item_def pull_request_item_def archived_item_def
      plain_item_def done_item_def sample_content_def)

lemma sample_placed:
  "spec_placed progress_item" "\<not> spec_placed draft_item" "\<not> spec_placed pull_request_item"
  "\<not> spec_placed archived_item" "spec_placed plain_item" "spec_placed done_item"
  by (simp_all add: spec_placed_def sample_statuses sample_contents column_names_def)

text \<open>
  Claim C4 at a listing of two pages with six items: an issue in progress, a draft, a
  pull request, an issue with the status \<open>Archived\<close>, an issue without status field, and
  an issue whose field \<open>STATE\<close> says \<open>Done\<close>.
\<close>

theorem bucket_items_characterisation_witness:
  "fetch_all_items sample_api ''PVT_1'' None []
     = Some (Inr [progress_item, draft_item, pull_request_item, archived_item, plain_item,
                  done_item])
   \<and> get_project_items sample_api ''PVT_1'' (Some ''kanban-board'')
     = Some (Inr [(''Backlog'', [make_issue_data 9 (sample_content 9 ''New idea'')]),
                  (''Ready'', []),
                  (''In progress'', [make_issue_data 1 (sample_content 1 ''Fix bug'')]),
                  (''In review'', []),
                  (''Done'', [make_issue_data 3 (sample_content 3 ''Update docs'')])])
   \<and> total_issues (bucket_items [progress_item, draft_item, pull_request_item, archived_item,
                                  plain_item, done_item]) = 3"
proof -
  let ?items = "[progress_item, draft_item, pull_request_item, archived_item, plain_item, done_item]"
  note t = bucket_items_characterisation
    [of "[]" ?items sample_api "''PVT_1''" "Some ''kanban-board''"]
  have b: "bucket_items ?items
     = [(''Backlog'', [make_issue_data 9 (sample_content 9 ''New idea'')]),
        (''Ready'', []),
        (''In progress'', [make_issue_data 1 (sample_content 1 ''Fix bug'')]),
        (''In review'', []),
        (''Done'', [make_issue_data 3 (sample_content 3 ''Update docs'')])]"
    by (simp add: t [THEN conjunct2, THEN conjunct1] List.map_filter_simps spec_column_entry_def
        sample_statuses sample_contents)
  have p: "length (filter spec_placed ?items) = 3"
    by (simp add: sample_placed)
  have g: "get_project_items sample_api ''PVT_1'' (Some ''kanban-board'')
             = Some (Inr (bucket_items ?items))"
    using t fetch_sample by blast
  have n: "total_issues (bucket_items ?items) = 3"
    using t [THEN conjunct2, THEN conjunct2, THEN conjunct1] p by simp
  show ?thesis
    by (rule conjI [OF fetch_sample conjI [OF g [unfolded b] n]])
qed

lemma map_filter_append:
  "List.map_filter g (xs @ ys) = List.map_filter g xs @ List.map_filter g ys"
  by (simp add: List.map_filter_def)

lemma dropped_entry:
  assumes "resolve_status (fieldValues item) = Str s" and "s \<notin> set column_names"
    and "k \<in> set column_names"
  shows "spec_column_entry k item = None"
proof -
  from assms have "spec_status (fieldValues item) \<noteq> Str k"
    by (auto simp: resolve_status_spec)
  then show ?thesis by (simp add: spec_column_entry_def split: option.splits)
qed

lemma bucket_items_dropped:
  assumes "resolve_status (fieldValues item) = Str s" and "s \<notin> set column_names"
  shows "bucket_items (xs @ item # ys) = bucket_items (xs @ ys)"
proof -
  have "map (\<lambda>k. (k, List.map_filter (spec_column_entry k) (xs @ item # ys))) column_names
      = map (\<lambda>k. (k, List.map_filter (spec_column_entry k) (xs @ ys))) column_names"
  proof (intro map_cong refl)
    fix k assume "k \<in> set column_names"
    then have "spec_column_entry k item = None" using assms by (intro dropped_entry)
    then show "(k, List.map_filter (spec_column_entry k) (xs @ item # ys))
             = (k, List.map_filter (spec_column_entry k) (xs @ ys))"
      by (simp add: map_filter_append List.map_filter_simps)
  qed
  then show ?thesis by (simp only: bucket_items_spec)
qed

lemma archived_status: "resolve_status (fieldValues archived_item) = Str ''Archived''"
  by (simp add: resolve_status_spec sample_statuses)

lemma fetch_archived:
  "fetch_all_items archived_api ''PVT_1'' None [] = Some (Inr [archived_item])"
  by (subst fetch_all_items.simps) (simp add: archived_api_def)

text \<open>
  Claim C5 as stated fails: an issue whose status field says \<open>Archived\<close> is not put into
  the column \<open>Backlog\<close>; the mapping returned for a project with this single item has
  five empty columns.
\<close>

theorem archived_item_counterexample:
  "content archived_item = Some (sample_content 7 ''Old idea'')
   \<and> c_number (sample_content 7 ''Old idea'') = Some 7
   \<and> resolve_status (fieldValues archived_item) = Str ''Archived''
   \<and> ''Archived'' \<notin> set column_names
   \<and> get_project_items archived_api ''PVT_1'' None
       = Some (Inr [(''Backlog'', []), (''Ready'', []), (''In progress'', []),
                    (''In review'', []), (''Done'', [])])"
proof -
  have a: "''Archived'' \<notin> set column_names" by (simp add: column_names_def)
  have "bucket_items ([] @ archived_item # []) = bucket_items ([] @ [])"
    using archived_status a by (rule bucket_items_dropped)
  then have "bucket_items [archived_item] = initial_columns"
    by (simp add: bucket_items_def)
  then have "get_project_items archived_api ''PVT_1'' None
       = Some (Inr [(''Backlog'', []), (''Ready'', []), (''In progress'', []),
                    (''In review'', []), (''Done'', [])])"
    by (simp add: get_project_items_def fetch_archived initial_columns_def)
  with a archived_status show ?thesis by (simp add: sample_contents)
qed

lemma numbered_entry:
  assumes "content item = Some c" and "c_number c = Some n"
  shows "spec_column_entry k item
           = (if resolve_status (fieldValues item) = Str k then Some (make_issue_data n c)
              else None)"
  using assms by (simp add: spec_column_entry_def resolve_status_spec)

lemma bucket_items_eqD:
  assumes "bucket_items xs = map (\<lambda>k. (k, f k)) column_names" and "k \<in> set column_names"
  shows "List.map_filter (spec_column_entry k) xs = f k"
proof -
  from assms(1) have "\<forall>k\<in>set column_names.
      (k, List.map_filter (spec_column_entry k) xs) = (k, f k)"
    by (simp only: bucket_items_spec map_eq_conv)
  with assms(2) show ?thesis by blast
qed

lemma dropped_iff:
  assumes "content item = Some c" and "c_number c = Some n"
  shows "bucket_items (xs @ item # ys) = bucket_items (xs @ ys)
           \<longleftrightarrow> resolve_status (fieldValues item) \<notin> Str ` set column_names"
proof
  assume eq: "bucket_items (xs @ item # ys) = bucket_items (xs @ ys)"
  show "resolve_status (fieldValues item) \<notin> Str ` set column_names"
  proof
    assume "resolve_status (fieldValues item) \<in> Str ` set column_names"
    then obtain k where k: "k \<in> set column_names" "resolve_status (fieldValues item) = Str k"
      by blast
    from eq have "bucket_items (xs @ item # ys)
        = map (\<lambda>k. (k, List.map_filter (spec_column_entry k) (xs @ ys))) column_names"
      by (simp only: bucket_items_spec)
    from bucket_items_eqD [OF this k(1)]
    have "length (List.map_filter (spec_column_entry k) (xs @ item # ys))
        = length (List.map_filter (spec_column_entry k) (xs @ ys))"
      by simp
    then show False
      by (simp add: map_filter_append map_filter_Cons_case numbered_entry [OF assms] k(2))
  qed
next
  assume n: "resolve_status (fieldValues item) \<notin> Str ` set column_names"
  have "map (\<lambda>k. (k, List.map_filter (spec_column_entry k) (xs @ item # ys))) column_names
      = map (\<lambda>k. (k, List.map_filter (spec_column_entry k) (xs @ ys))) column_names"
  proof (intro map_cong refl)
    fix k assume "k \<in> set column_names"
    with n have "resolve_status (fieldValues item) \<noteq> Str k" by blast
    then have "spec_column_entry k item = None" by (simp add: numbered_entry [OF assms])
    then show "(k, List.map_filter (spec_column_entry k) (xs @ item # ys))
             = (k, List.map_filter (spec_column_entry k) (xs @ ys))"
      by (simp add: map_filter_append List.map_filter_simps)
  qed
  then show "bucket_items (xs @ item # ys) = bucket_items (xs @ ys)"
    by (simp only: bucket_items_spec)
qed

lemma backlog_iff:
  assumes "content item = Some c" and "c_number c = Some n"
  shows "bucket_items (xs @ [item])
           = column_append (bucket_items xs) ''Backlog'' (make_issue_data n c)
         \<longleftrightarrow> resolve_status (fieldValues item) = Str ''Backlog''"
proof
  assume eq: "bucket_items (xs @ [item])
           = column_append (bucket_items xs) ''Backlog'' (make_issue_data n c)"
  have b: "''Backlog'' \<in> set column_names" by (simp add: column_names_def)
  from eq have "bucket_items (xs @ [item])
      = map (\<lambda>k. (k, List.map_filter (spec_column_entry k) xs
                       @ (if k = ''Backlog'' then [make_issue_data n c] else []))) column_names"
    by (simp only: bucket_items_spec [of xs] column_append_map)
  from bucket_items_eqD [OF this b]
  have "length (List.map_filter (spec_column_entry ''Backlog'') (xs @ [item]))
      = Suc (length (List.map_filter (spec_column_entry ''Backlog'') xs))"
    by simp
  then show "resolve_status (fieldValues item) = Str ''Backlog''"
    by (simp add: map_filter_append map_filter_Cons_case List.map_filter_simps(2)
        numbered_entry [OF assms] split: if_splits)
next
  assume r: "resolve_status (fieldValues item) = Str ''Backlog''"
  have e: "\<And>k. spec_column_entry k item
              = (if k = ''Backlog'' then Some (make_issue_data n c) else None)"
    using r by (auto simp: numbered_entry [OF assms])
  show "bucket_items (xs @ [item])
           = column_append (bucket_items xs) ''Backlog'' (make_issue_data n c)"
    by (simp add: bucket_items_spec column_append_map map_filter_append List.map_filter_simps e)
qed

lemma find_status_node:
  "find is_status_field fvs = Some node \<Longrightarrow> \<exists>fv. node = Some fv"
  by (cases node) (auto simp: find_Some_iff is_status_field_def)

lemma resolve_status_backlog_iff:
  "resolve_status fvs = Str ''Backlog''
     \<longleftrightarrow> find is_status_field fvs = None
         \<or> (\<exists>fv. find is_status_field fvs = Some (Some fv)
                \<and> (fv_name fv = None \<or> fv_name fv = Some (Str ''Backlog'')))"
proof (cases "find is_status_field fvs")
  case None
  then show ?thesis by (simp add: resolve_status_spec spec_status_def)
next
  case (Some node)
  then obtain fv where "node = Some fv" using find_status_node by blast
  with Some show ?thesis
    by (cases "fv_name fv") (simp_all add: resolve_status_spec spec_status_def selected_name_def)
qed

lemma resolve_status_unknown_iff:
  "resolve_status fvs \<notin> Str ` set column_names
     \<longleftrightarrow> (\<exists>fv. find is_status_field fvs = Some (Some fv)
              \<and> (fv_name fv = Some Null
                 \<or> (\<exists>s. fv_name fv = Some (Str s) \<and> s \<notin> set column_names)))"
proof (cases "find is_status_field fvs")
  case None
  then show ?thesis by (simp add: resolve_status_spec spec_status_def column_names_def)
next
  case (Some node)
  then obtain fv where n: "node = Some fv" using find_status_node by blast
  show ?thesis
  proof (cases "fv_name fv")
    case None
    with Some n show ?thesis
      by (simp add: resolve_status_spec spec_status_def selected_name_def column_names_def)
  next
    case (Some j)
    with \<open>find is_status_field fvs = Some node\<close> n show ?thesis
      by (cases j)
         (auto simp: resolve_status_spec spec_status_def selected_name_def)
  qed
qed

text \<open>
  Claim C5, amended.  The status of an item is the selected name of its first field
  value whose field is named \<open>status\<close> or \<open>state\<close>, and \<open>Backlog\<close> when there is no such
  field value or when that field value has no name.  An item with a numbered content
  is dropped, the mapping being the one computed without the item, exactly when its
  status is none of the five column names: when its status field value has the name
  \<open>null\<close> or a name that is not a column.  It is appended to the column \<open>Backlog\<close>
  exactly when its status is \<open>Backlog\<close>: when it has no status field value, or its
  status field value has no name or the name \<open>Backlog\<close>.
\<close>

theorem unknown_status_is_dropped:
  "(content item = Some c \<and> c_number c = Some n
      \<longrightarrow> (bucket_items (xs @ item # ys) = bucket_items (xs @ ys)
             \<longleftrightarrow> resolve_status (fieldValues item) \<notin> Str ` set column_names)
        \<and> (bucket_items (xs @ [item])
               = column_append (bucket_items xs) ''Backlog'' (make_issue_data n c)
             \<longleftrightarrow> resolve_status (fieldValues item) = Str ''Backlog''))
   \<and> (resolve_status fvs \<notin> Str ` set column_names
        \<longleftrightarrow> (\<exists>fv. find is_status_field fvs = Some (Some fv)
                 \<and> (fv_name fv = Some Null
                    \<or> (\<exists>s. fv_name fv = Some (Str s) \<and> s \<notin> set column_names))))
   \<and> (resolve_status fvs = Str ''Backlog''
        \<longleftrightarrow> find is_status_field fvs = None
            \<or> (\<exists>fv. find is_status_field fvs = Some (Some fv)
                   \<and> (fv_name fv = None \<or> fv_name fv = Some (Str ''Backlog''))))"
  using dropped_iff [of item c n xs ys] backlog_iff [of item c n xs]
    resolve_status_unknown_iff [of fvs] resolve_status_backlog_iff [of fvs]
  by blast

lemma new_contents:
  "content null_item = Some (sample_content 11 ''No option chosen'')"
  "content nameless_item = Some (sample_content 12 ''A text field called state'')"
  by (simp_all add: null_item_def nameless_item_def)

lemma status_finds:
  "find is_status_field (fieldValues plain_item) = None"
  "find is_status_field (fieldValues archived_item)
     = Some (Some \<lparr>fv_field = Some \<lparr>fo_name = Some ''Status''\<rparr>, fv_name = Some (Str ''Archived'')\<rparr>)"
  "find is_status_field (fieldValues null_item)
     = Some (Some \<lparr>fv_field = Some \<lparr>fo_name = Some ''Status''\<rparr>, fv_name = Some Null\<rparr>)"
  "find is_status_field (fieldValues nameless_item)
     = Some (Some \<lparr>fv_field = Some \<lparr>fo_name = Some ''State''\<rparr>, fv_name = None\<rparr>)"
  "find is_status_field (fieldValues progress_item)
     = Some (Some \<lparr>fv_field = Some \<lparr>fo_name = Some ''Status''\<rparr>,
                    fv_name = Some (Str ''In progress'')\<rparr>)"
  by (simp_all add: plain_item_def archived_item_def null_item_def nameless_item_def
      progress_item_def is_status_field_def status_value_def py_lower_def lower_char_def)

text \<open>
  The amended claim C5 at five issues: the status \<open>Archived\<close> and the status \<open>null\<close> are
  dropped; no status field value and a status field value without name go to
  \<open>Backlog\<close>; the status \<open>In progress\<close> is neither dropped nor put into \<open>Backlog\<close>.
\<close>

theorem unknown_status_is_dropped_witness:
  "content archived_item = Some (sample_content 7 ''Old idea'')
   \<and> c_number (sample_content 7 ''Old idea'') = Some 7
   \<and> resolve_status (fieldValues archived_item) = Str ''Archived''
   \<and> bucket_items ([progress_item] @ archived_item # [done_item])
       = bucket_items ([progress_item] @ [done_item])
   \<and> bucket_items ([progress_item] @ [archived_item])
       \<noteq> column_append (bucket_items [progress_item]) ''Backlog''
            (make_issue_data 7 (sample_content 7 ''Old idea''))
   \<and> content null_item = Some (sample_content 11 ''No option chosen'')
   \<and> resolve_status (fieldValues null_item) = Null
   \<and> bucket_items ([progress_item] @ null_item # [done_item])
       = bucket_items ([progress_item] @ [done_item])
   \<and> content plain_item = Some (sample_content 9 ''New idea'')
   \<and> find is_status_field (fieldValues plain_item) = None
   \<and> bucket_items ([progress_item] @ [plain_item])
       = column_append (bucket_items [progress_item]) ''Backlog''
           (make_issue_data 9 (sample_content 9 ''New idea''))
   \<and> content nameless_item = Some (sample_content 12 ''A text field called state'')
   \<and> resolve_status (fieldValues nameless_item) = Str ''Backlog''
   \<and> bucket_items ([progress_item] @ [nameless_item])
       = column_append (bucket_items [progress_item]) ''Backlog''
           (make_issue_data 12 (sample_content 12 ''A text field called state''))
   \<and> content progress_item = Some (sample_content 1 ''Fix bug'')
   \<and> resolve_status (fieldValues progress_item) = Str ''In progress''
   \<and> bucket_items ([] @ progress_item # [done_item]) \<noteq> bucket_items ([] @ [done_item])
   \<and> bucket_items ([] @ [progress_item])
       \<noteq> column_append (bucket_items []) ''Backlog'' (make_issue_data 1 (sample_content 1 ''Fix bug''))"
proof -
  have a: "''Archived'' \<notin> set column_names" by (simp add: column_names_def)
  have ra: "resolve_status (fieldValues archived_item) = Str ''Archived''"
    by (simp add: archived_item_def status_value_def py_lower_def lower_char_def)
  have rn: "resolve_status (fieldValues null_item) = Null"
    by (simp add: null_item_def py_lower_def lower_char_def)
  have rl: "resolve_status (fieldValues nameless_item) = Str ''Backlog''"
    by (simp add: nameless_item_def py_lower_def lower_char_def)
  have rp: "resolve_status (fieldValues progress_item) = Str ''In progress''"
    by (simp add: progress_item_def status_value_def py_lower_def lower_char_def)
  note ta = unknown_status_is_dropped
      [of archived_item "sample_content 7 ''Old idea''" 7 "[progress_item]" "[done_item]"
        "fieldValues archived_item"]
  note tn = unknown_status_is_dropped
      [of null_item "sample_content 11 ''No option chosen''" 11 "[progress_item]" "[done_item]"
        "fieldValues null_item"]
  note tp = unknown_status_is_dropped
      [of plain_item "sample_content 9 ''New idea''" 9 "[progress_item]" "[]"
        "fieldValues plain_item"]
  note tl = unknown_status_is_dropped
      [of nameless_item "sample_content 12 ''A text field called state''" 12 "[progress_item]"
        "[]" "fieldValues nameless_item"]
  note tg = unknown_status_is_dropped
      [of progress_item "sample_content 1 ''Fix bug''" 1 "[]" "[done_item]"
        "fieldValues progress_item"]
  from ta have 1: "bucket_items ([progress_item] @ archived_item # [done_item])
       = bucket_items ([progress_item] @ [done_item])"
    by (simp add: sample_contents status_finds a)
  from ta have 2: "bucket_items ([progress_item] @ [archived_item])
       \<noteq> column_append (bucket_items [progress_item]) ''Backlog''
            (make_issue_data 7 (sample_content 7 ''Old idea''))"
    by (simp add: sample_contents status_finds)
  from tn have 3: "bucket_items ([progress_item] @ null_item # [done_item])
       = bucket_items ([progress_item] @ [done_item])"
    by (simp add: sample_contents new_contents status_finds)
  from tp have 4: "bucket_items ([progress_item] @ [plain_item])
       = column_append (bucket_items [progress_item]) ''Backlog''
           (make_issue_data 9 (sample_content 9 ''New idea''))"
    by (simp add: sample_contents status_finds)
  from tl have 5: "bucket_items ([progress_item] @ [nameless_item])
       = column_append (bucket_items [progress_item]) ''Backlog''
           (make_issue_data 12 (sample_content 12 ''A text field called state''))"
    by (simp add: sample_contents new_contents status_finds)
  from tg have 6: "bucket_items ([] @ progress_item # [done_item]) \<noteq> bucket_items ([] @ [done_item])"
    by (simp add: sample_contents rp column_names_def)
  from tg have 7: "bucket_items ([] @ [progress_item])
       \<noteq> column_append (bucket_items []) ''Backlog'' (make_issue_data 1 (sample_content 1 ''Fix bug''))"
    by (simp add: sample_contents rp)
  show ?thesis
    by (intro conjI) (fact 1 2 3 4 5 6 7 ra rn rl rp | simp add: sample_contents new_contents status_finds)+
qed

lemma format_kanban_summary_concat:
  "format_kanban_summary now cols project_name board_name =
     ''# Kanban Board Summary\<newline>\<newline>**Project:** '' @ project_name @ ''  \<newline>**Board:** ''
     @ board_name @ ''  \<newline>**Generated:** '' @ strftime_utc now
     @ ''  \<newline>**Total Issues:** '' @ str_nat (total_issues cols) @ ''\<newline>\<newline>''
     @ concat (map (column_section cols) column_config)
     @ ''---\<newline>\<newline>*This summary was automatically generated by the Kanban Summary Bot.*\<newline>''"
  unfolding format_kanban_summary_def
  by (simp add: foldl_append_concat)

text \<open>
  Claim C10.  \<open>get_project_items\<close> returns the same result for any two board names.
  The report of \<open>format_kanban_summary\<close> contains the board name once, verbatim, in the
  line \<open>**Board:**\<close> of the header; the rest of the report is computed from the other
  arguments.
\<close>

theorem board_name_only_echoed:
  "get_project_items query project_id board_name1 = get_project_items query project_id board_name2
   \<and> format_kanban_summary now cols project_name board_name =
       ''# Kanban Board Summary\<newline>\<newline>**Project:** '' @ project_name @ ''  \<newline>**Board:** ''
       @ board_name @ ''  \<newline>**Generated:** '' @ strftime_utc now
       @ ''  \<newline>**Total Issues:** '' @ str_nat (total_issues cols) @ ''\<newline>\<newline>''
       @ concat (map (column_section cols) column_config)
       @ ''---\<newline>\<newline>*This summary was automatically generated by the Kanban Summary Bot.*\<newline>''"
  using format_kanban_summary_concat [of now cols project_name board_name]
  by (simp add: get_project_items_def)

end
